theory Spec2Isabelle
  imports Complex_Main
begin

section \<open>Floating-point cells\<close>

text \<open>
  The strategy computes on pandas columns of Python floats. A cell is a finite number,
  not-a-number (the "undefined" marker of the specification) or one of the two
  infinities. Comparisons are exact, and every comparison with \<open>NaN\<close> is false, as it is
  in Python and numpy.
\<close>

datatype fl = NaN | NInf | Fin real | PInf

fun fl_lt :: "fl \<Rightarrow> fl \<Rightarrow> bool" where
  "fl_lt (Fin a) (Fin b) = (a < b)"
| "fl_lt (Fin a) PInf = True"
| "fl_lt NInf (Fin b) = True"
| "fl_lt NInf PInf = True"
| "fl_lt _ _ = False"

definition fl_gt :: "fl \<Rightarrow> fl \<Rightarrow> bool" where
  "fl_gt a b = fl_lt b a"

definition fl_le :: "fl \<Rightarrow> fl \<Rightarrow> bool" where
  "fl_le a b = (if a = NaN then False else (fl_lt a b \<or> a = b))"

definition fl_ge :: "fl \<Rightarrow> fl \<Rightarrow> bool" where
  "fl_ge a b = fl_le b a"

text \<open>
  Python's two-argument \<open>max\<close> keeps its first argument unless the second is greater,
  so a \<open>NaN\<close> first argument is returned as it is.
\<close>

definition py_max :: "fl \<Rightarrow> fl \<Rightarrow> fl" where
  "py_max a b = (if fl_gt b a then b else a)"

text \<open>
  Floating-point arithmetic rounds and overflows: \<open>0.05 * 0.7\<close> is
  \<open>0.034999999999999996\<close>, and a quotient of two finite numbers can be infinite. The
  operations are therefore not the ones of the real numbers but parameters of the
  model: subtraction, multiplication and division of two cells, and the two reductions
  of pandas whose order of summation is pandas' own, the standard deviation of a column
  (\<open>ddof=1\<close>, on at least two defined values) and the mean that \<open>rolling(w).mean()\<close> reports
  at the last position of a series. What is proved below holds for every choice of
  these operations, so for the ones of the machine.
\<close>

record float_ops =
  f_sub :: "fl \<Rightarrow> fl \<Rightarrow> fl"
  f_mul :: "fl \<Rightarrow> fl \<Rightarrow> fl"
  f_div :: "fl \<Rightarrow> fl \<Rightarrow> fl"
  f_std :: "fl list \<Rightarrow> fl"
  f_rolling_mean :: "nat \<Rightarrow> real list \<Rightarrow> fl"


section \<open>Column operations of pandas and numpy\<close>

text \<open>
  A column (a pandas Series) is a list of cells in index order. The operations below are
  the ones the strategy calls, on columns that belong to one frame and so share its index.
\<close>

definition to_float :: "real list \<Rightarrow> fl list" where
  "to_float xs = map Fin xs"

definition shift :: "nat \<Rightarrow> fl list \<Rightarrow> fl list" where
  "shift k xs = take (length xs) (replicate k NaN @ xs)"

definition col_sub :: "float_ops \<Rightarrow> fl list \<Rightarrow> fl list \<Rightarrow> fl list" where
  "col_sub fa xs ys = map2 (f_sub fa) xs ys"

definition col_div :: "float_ops \<Rightarrow> fl list \<Rightarrow> fl list \<Rightarrow> fl list" where
  "col_div fa xs ys = map2 (f_div fa) xs ys"

definition col_sub_scalar :: "float_ops \<Rightarrow> fl list \<Rightarrow> real \<Rightarrow> fl list" where
  "col_sub_scalar fa xs c = map (\<lambda>x. f_sub fa x (Fin c)) xs"

text \<open>
  \<open>pct_change(periods=k)\<close> on a column without missing values: the first \<open>k\<close> cells
  have no predecessor and are \<open>NaN\<close>; the others are the quotient by the cell \<open>k\<close>
  positions earlier, less one.
\<close>

definition pct_change :: "float_ops \<Rightarrow> nat \<Rightarrow> real list \<Rightarrow> fl list" where
  "pct_change fa k xs =
     map (\<lambda>i. if i < k then NaN
              else f_sub fa (f_div fa (Fin (xs ! i)) (Fin (xs ! (i - k)))) (Fin 1))
       [0..<length xs]"

definition dropna :: "fl list \<Rightarrow> fl list" where
  "dropna xs = filter (\<lambda>x. x \<noteq> NaN) xs"

text \<open>
  \<open>Series.std()\<close>: missing values are skipped, and with fewer than two values left the
  result is \<open>NaN\<close>.
\<close>

definition std :: "float_ops \<Rightarrow> fl list \<Rightarrow> fl" where
  "std fa xs = (let v = dropna xs in if length v < 2 then NaN else f_std fa v)"

text \<open>
  \<open>rolling(w)\<close> looks at the \<open>w\<close> cells that end at the current position, and gives
  \<open>NaN\<close> while fewer than \<open>w\<close> cells are there. The largest and the smallest cell of a
  window are cells of the column, so no rounding is involved in them.
\<close>

definition window :: "nat \<Rightarrow> nat \<Rightarrow> 'a list \<Rightarrow> 'a list" where
  "window w i xs = take w (drop (i + 1 - w) xs)"

definition rolling_mean :: "float_ops \<Rightarrow> nat \<Rightarrow> real list \<Rightarrow> fl list" where
  "rolling_mean fa w xs =
     map (\<lambda>i. if i + 1 < w then NaN else f_rolling_mean fa w (take (i + 1) xs))
       [0..<length xs]"

definition rolling_max :: "nat \<Rightarrow> real list \<Rightarrow> fl list" where
  "rolling_max w xs =
     map (\<lambda>i. if i + 1 < w then NaN
              else Fin (fold max (tl (window w i xs)) (hd (window w i xs))))
       [0..<length xs]"

definition rolling_min :: "nat \<Rightarrow> real list \<Rightarrow> fl list" where
  "rolling_min w xs =
     map (\<lambda>i. if i + 1 < w then NaN
              else Fin (fold min (tl (window w i xs)) (hd (window w i xs))))
       [0..<length xs]"

section \<open>Frames\<close>

text \<open>
  The candle frame the host hands over: one column per field. pandas keeps every column
  of a frame at the length of its index, which \<open>wf_ohlcv\<close> and \<open>wf_frame\<close> state. The
  candle data is finite.
\<close>

record ohlcv =
  date :: "int list"
  open_col :: "real list"
  high :: "real list"
  low :: "real list"
  close :: "real list"
  volume :: "real list"

definition len :: "'a ohlcv_scheme \<Rightarrow> nat" where
  "len df = length (date df)"

definition wf_ohlcv :: "'a ohlcv_scheme \<Rightarrow> bool" where
  "wf_ohlcv df =
     (length (open_col df) = len df \<and> length (high df) = len df \<and> length (low df) = len df
      \<and> length (close df) = len df \<and> length (volume df) = len df)"

section \<open>Strategy parameters\<close>

text \<open>
  The class attributes of \<open>MomentumStrategy\<close> that the modelled methods read. The
  integer parameters are \<open>IntParameter\<close>s, the others \<open>DecimalParameter\<close>s or plain
  floats.
\<close>

record strategy =
  stoploss :: real
  macd_fast :: int
  macd_slow :: int
  macd_signal :: int
  volume_factor :: real
  rsi_period :: int
  rsi_oversold :: int
  rsi_overbought :: int
  exit_macd_threshold :: real
  base_leverage :: int
  max_leverage :: int
  volatility_threshold :: real

definition default_strategy :: strategy where
  "default_strategy =
     \<lparr> stoploss = - 0.10, macd_fast = 12, macd_slow = 26, macd_signal = 9,
       volume_factor = 1.5, rsi_period = 14, rsi_oversold = 30, rsi_overbought = 70,
       exit_macd_threshold = 0.0, base_leverage = 10, max_leverage = 20,
       volatility_threshold = 0.05 \<rparr>"

text \<open>
  The analysed frame: the candle columns, the indicator columns that
  \<open>populate_indicators\<close> adds, and the four signal columns, which are absent
  (\<open>None\<close>) until signal evaluation creates them. The two crossover columns come from
  \<open>np.where(..., 1, 0)\<close>; their integers are held as finite cells.
\<close>

record dataframe = ohlcv +
  macd :: "fl list"
  macdsignal :: "fl list"
  macdhist :: "fl list"
  rsi :: "fl list"
  bb_lowerband :: "fl list"
  bb_middleband :: "fl list"
  bb_upperband :: "fl list"
  bb_percent :: "fl list"
  bb_width :: "fl list"
  volume_mean :: "fl list"
  volume_ratio :: "fl list"
  price_change :: "fl list"
  price_momentum :: "fl list"
  ema_20 :: "fl list"
  ema_50 :: "fl list"
  adx :: "fl list"
  stoch_k :: "fl list"
  stoch_d :: "fl list"
  williams_r :: "fl list"
  cci :: "fl list"
  macd_cross :: "fl list"
  macd_cross_down :: "fl list"
  enter_long :: "fl list option"
  enter_short :: "fl list option"
  exit_long :: "fl list option"
  exit_short :: "fl list option"

definition indicator_columns :: "dataframe \<Rightarrow> fl list list" where
  "indicator_columns df =
     [macd df, macdsignal df, macdhist df, rsi df, bb_lowerband df, bb_middleband df,
      bb_upperband df, bb_percent df, bb_width df, volume_mean df, volume_ratio df,
      price_change df, price_momentum df, ema_20 df, ema_50 df, adx df, stoch_k df,
      stoch_d df, williams_r df, cci df, macd_cross df, macd_cross_down df]"

definition signal_columns :: "dataframe \<Rightarrow> fl list option list" where
  "signal_columns df = [enter_long df, enter_short df, exit_long df, exit_short df]"

definition column_ok :: "nat \<Rightarrow> fl list option \<Rightarrow> bool" where
  "column_ok n col = (case col of None \<Rightarrow> True | Some xs \<Rightarrow> length xs = n)"

text \<open>Every column of a frame has the length of the index.\<close>

definition wf_frame :: "dataframe \<Rightarrow> bool" where
  "wf_frame df =
     (wf_ohlcv df \<and> list_all (\<lambda>c. length c = len df) (indicator_columns df)
      \<and> list_all (column_ok (len df)) (signal_columns df))"

text \<open>Boolean masks: the element-wise comparisons and connectives of pandas.\<close>

definition eq_c :: "fl list \<Rightarrow> real \<Rightarrow> bool list" where
  "eq_c xs c = map (\<lambda>x. x = Fin c) xs"

definition gt_c :: "fl list \<Rightarrow> real \<Rightarrow> bool list" where
  "gt_c xs c = map (\<lambda>x. fl_gt x (Fin c)) xs"

definition lt_c :: "fl list \<Rightarrow> real \<Rightarrow> bool list" where
  "lt_c xs c = map (\<lambda>x. fl_lt x (Fin c)) xs"

definition gt_cols :: "fl list \<Rightarrow> fl list \<Rightarrow> bool list" where
  "gt_cols xs ys = map2 fl_gt xs ys"

definition lt_cols :: "fl list \<Rightarrow> fl list \<Rightarrow> bool list" where
  "lt_cols xs ys = map2 fl_lt xs ys"

definition ge_cols :: "fl list \<Rightarrow> fl list \<Rightarrow> bool list" where
  "ge_cols xs ys = map2 fl_ge xs ys"

definition le_cols :: "fl list \<Rightarrow> fl list \<Rightarrow> bool list" where
  "le_cols xs ys = map2 fl_le xs ys"

definition mask_and :: "bool list \<Rightarrow> bool list \<Rightarrow> bool list" where
  "mask_and ms ns = map2 (\<and>) ms ns"

definition mask_or :: "bool list \<Rightarrow> bool list \<Rightarrow> bool list" where
  "mask_or ms ns = map2 (\<or>) ms ns"

definition np_where :: "bool list \<Rightarrow> real \<Rightarrow> real \<Rightarrow> fl list" where
  "np_where cond a b = map (\<lambda>m. if m then Fin a else Fin b) cond"

text \<open>
  Assigning a Series to a column aligns it with the index of the frame: positions the
  Series does not cover hold \<open>NaN\<close>.
\<close>

definition assign :: "nat \<Rightarrow> fl list \<Rightarrow> fl list" where
  "assign n xs = take n xs @ replicate (n - length xs) NaN"

datatype error = ValueError | TypeError

text \<open>
  \<open>dataframe.loc[mask, column] = 1\<close>. An absent column is created, with \<open>NaN\<close> outside
  the mask; pandas refuses that on a frame without rows ("cannot set a frame with no
  defined index and a scalar"). A column that is there keeps its cells outside the mask.
\<close>

definition loc_set :: "nat \<Rightarrow> bool list \<Rightarrow> fl list option \<Rightarrow> error + fl list" where
  "loc_set n cond col =
     (case col of
        None \<Rightarrow>
          if n = 0 then Inl ValueError
          else Inr (map (\<lambda>m. if m then Fin 1 else NaN) cond)
      | Some xs \<Rightarrow> Inr (map2 (\<lambda>m x. if m then Fin 1 else x) cond xs))"

text \<open>A signal is set at a position when its column holds 1 there.\<close>

definition flag_at :: "fl list option \<Rightarrow> nat \<Rightarrow> bool" where
  "flag_at col i =
     (case col of None \<Rightarrow> False | Some xs \<Rightarrow> i < length xs \<and> xs ! i = Fin 1)"


section \<open>Indicators\<close>

text \<open>
  TA-Lib is not part of the repository. Its numeric routines are parameters: each takes
  the price columns it reads and its periods, and returns its result columns. The
  strategy calls them through TA-Lib's abstract interface, which checks the type of
  every optional input before it runs the routine: an integer option takes a Python
  \<open>int\<close>, a real option a Python \<open>float\<close>, and any other value raises \<open>TypeError\<close>
  ("Invalid parameter value for nbdevup (expected float, got int)").
\<close>

datatype py_num = PyInt int | PyFloat real

definition check_int_option :: "py_num \<Rightarrow> error + int" where
  "check_int_option v = (case v of PyInt n \<Rightarrow> Inr n | PyFloat x \<Rightarrow> Inl TypeError)"

definition check_real_option :: "py_num \<Rightarrow> error + real" where
  "check_real_option v = (case v of PyInt n \<Rightarrow> Inl TypeError | PyFloat x \<Rightarrow> Inr x)"

text \<open>Sequencing: an exception ends the method.\<close>

definition and_then :: "error + 'a \<Rightarrow> ('a \<Rightarrow> error + 'b) \<Rightarrow> error + 'b" where
  "and_then m f = (case m of Inl e \<Rightarrow> Inl e | Inr x \<Rightarrow> f x)"

record talib =
  MACD :: "real list \<Rightarrow> int \<Rightarrow> int \<Rightarrow> int \<Rightarrow> fl list \<times> fl list \<times> fl list"
  RSI :: "real list \<Rightarrow> int \<Rightarrow> fl list"
  BBANDS :: "real list \<Rightarrow> int \<Rightarrow> real \<Rightarrow> real \<Rightarrow> fl list \<times> fl list \<times> fl list"
  EMA :: "real list \<Rightarrow> int \<Rightarrow> fl list"
  ADX :: "real list \<Rightarrow> real list \<Rightarrow> real list \<Rightarrow> int \<Rightarrow> fl list"
  STOCH :: "real list \<Rightarrow> real list \<Rightarrow> real list \<Rightarrow> int \<Rightarrow> int \<Rightarrow> int \<Rightarrow> fl list \<times> fl list"
  WILLR :: "real list \<Rightarrow> real list \<Rightarrow> real list \<Rightarrow> int \<Rightarrow> fl list"
  CCI :: "real list \<Rightarrow> real list \<Rightarrow> real list \<Rightarrow> int \<Rightarrow> fl list"

definition ta_MACD ::
  "talib \<Rightarrow> real list \<Rightarrow> py_num \<Rightarrow> py_num \<Rightarrow> py_num
     \<Rightarrow> error + fl list \<times> fl list \<times> fl list" where
  "ta_MACD ta c fastperiod slowperiod signalperiod =
     and_then (check_int_option fastperiod) (\<lambda>f.
     and_then (check_int_option slowperiod) (\<lambda>s.
     and_then (check_int_option signalperiod) (\<lambda>g. Inr (MACD ta c f s g))))"

definition ta_RSI :: "talib \<Rightarrow> real list \<Rightarrow> py_num \<Rightarrow> error + fl list" where
  "ta_RSI ta c timeperiod =
     and_then (check_int_option timeperiod) (\<lambda>p. Inr (RSI ta c p))"

definition ta_BBANDS ::
  "talib \<Rightarrow> real list \<Rightarrow> py_num \<Rightarrow> py_num \<Rightarrow> py_num
     \<Rightarrow> error + fl list \<times> fl list \<times> fl list" where
  "ta_BBANDS ta c timeperiod nbdevup nbdevdn =
     and_then (check_int_option timeperiod) (\<lambda>p.
     and_then (check_real_option nbdevup) (\<lambda>u.
     and_then (check_real_option nbdevdn) (\<lambda>d. Inr (BBANDS ta c p u d))))"

definition ta_EMA :: "talib \<Rightarrow> real list \<Rightarrow> py_num \<Rightarrow> error + fl list" where
  "ta_EMA ta c timeperiod =
     and_then (check_int_option timeperiod) (\<lambda>p. Inr (EMA ta c p))"

definition ta_ADX ::
  "talib \<Rightarrow> real list \<Rightarrow> real list \<Rightarrow> real list \<Rightarrow> py_num \<Rightarrow> error + fl list" where
  "ta_ADX ta h l c timeperiod =
     and_then (check_int_option timeperiod) (\<lambda>p. Inr (ADX ta h l c p))"

definition ta_STOCH ::
  "talib \<Rightarrow> real list \<Rightarrow> real list \<Rightarrow> real list \<Rightarrow> py_num \<Rightarrow> py_num \<Rightarrow> py_num
     \<Rightarrow> error + fl list \<times> fl list" where
  "ta_STOCH ta h l c fastk_period slowk_period slowd_period =
     and_then (check_int_option fastk_period) (\<lambda>k.
     and_then (check_int_option slowk_period) (\<lambda>sk.
     and_then (check_int_option slowd_period) (\<lambda>sd. Inr (STOCH ta h l c k sk sd))))"

definition ta_WILLR ::
  "talib \<Rightarrow> real list \<Rightarrow> real list \<Rightarrow> real list \<Rightarrow> py_num \<Rightarrow> error + fl list" where
  "ta_WILLR ta h l c timeperiod =
     and_then (check_int_option timeperiod) (\<lambda>p. Inr (WILLR ta h l c p))"

definition ta_CCI ::
  "talib \<Rightarrow> real list \<Rightarrow> real list \<Rightarrow> real list \<Rightarrow> py_num \<Rightarrow> error + fl list" where
  "ta_CCI ta h l c timeperiod =
     and_then (check_int_option timeperiod) (\<lambda>p. Inr (CCI ta h l c p))"

text \<open>The fourteen result columns of the TA-Lib calls.\<close>

record ta_columns =
  o_macd :: "fl list"
  o_macdsignal :: "fl list"
  o_macdhist :: "fl list"
  o_rsi :: "fl list"
  o_upperband :: "fl list"
  o_middleband :: "fl list"
  o_lowerband :: "fl list"
  o_ema_20 :: "fl list"
  o_ema_50 :: "fl list"
  o_adx :: "fl list"
  o_slowk :: "fl list"
  o_slowd :: "fl list"
  o_willr :: "fl list"
  o_cci :: "fl list"

text \<open>
  The frame that \<open>populate_indicators\<close> builds once the TA-Lib calls have returned: their
  columns, assigned to the frame, and the columns that the method computes itself.
\<close>

definition indicator_frame :: "float_ops \<Rightarrow> ohlcv \<Rightarrow> ta_columns \<Rightarrow> dataframe" where
  "indicator_frame fa dataframe outs =
     (let n = len dataframe;
          c_macd = assign n (o_macd outs);
          c_macdsignal = assign n (o_macdsignal outs);
          c_macdhist = assign n (o_macdhist outs);
          c_rsi = assign n (o_rsi outs);
          c_lower = assign n (o_lowerband outs);
          c_middle = assign n (o_middleband outs);
          c_upper = assign n (o_upperband outs);
          c_bb_percent =
            col_div fa (col_sub fa (to_float (close dataframe)) c_lower)
              (col_sub fa c_upper c_lower);
          c_bb_width = col_div fa (col_sub fa c_upper c_lower) c_middle;
          c_volume_mean = rolling_mean fa 20 (volume dataframe);
          c_volume_ratio = col_div fa (to_float (volume dataframe)) c_volume_mean;
          c_price_change = pct_change fa 5 (close dataframe);
          c_price_momentum =
            col_sub_scalar fa
              (col_div fa (to_float (close dataframe)) (shift 5 (to_float (close dataframe))))
              1;
          c_macd_cross =
            np_where
              (mask_and (gt_cols c_macd c_macdsignal)
                 (le_cols (shift 1 c_macd) (shift 1 c_macdsignal))) 1 0;
          c_macd_cross_down =
            np_where
              (mask_and (lt_cols c_macd c_macdsignal)
                 (ge_cols (shift 1 c_macd) (shift 1 c_macdsignal))) 1 0
      in \<lparr> date = date dataframe, open_col = open_col dataframe, high = high dataframe,
           low = low dataframe, close = close dataframe, volume = volume dataframe,
           macd = c_macd, macdsignal = c_macdsignal, macdhist = c_macdhist, rsi = c_rsi,
           bb_lowerband = c_lower, bb_middleband = c_middle, bb_upperband = c_upper,
           bb_percent = c_bb_percent, bb_width = c_bb_width, volume_mean = c_volume_mean,
           volume_ratio = c_volume_ratio, price_change = c_price_change,
           price_momentum = c_price_momentum, ema_20 = assign n (o_ema_20 outs),
           ema_50 = assign n (o_ema_50 outs), adx = assign n (o_adx outs),
           stoch_k = assign n (o_slowk outs), stoch_d = assign n (o_slowd outs),
           williams_r = assign n (o_willr outs), cci = assign n (o_cci outs),
           macd_cross = c_macd_cross, macd_cross_down = c_macd_cross_down,
           enter_long = None, enter_short = None, exit_long = None, exit_short = None \<rparr>)"




text \<open>
  \<open>populate_indicators\<close>: the TA-Lib calls in the order of the source, with the arguments
  the source passes. The periods of \<open>MACD\<close> and \<open>RSI\<close> are the values of
  \<open>IntParameter\<close>s; the literals \<open>20\<close>, \<open>2\<close>, \<open>14\<close>, \<open>3\<close> and \<open>50\<close> are Python ints. The
  pandas statements between the calls raise nothing, so the frame is put together after
  the last call.
\<close>

definition populate_indicators ::
  "talib \<Rightarrow> float_ops \<Rightarrow> strategy \<Rightarrow> ohlcv \<Rightarrow> error + dataframe" where
  "populate_indicators ta fa self dataframe =
     and_then (ta_MACD ta (close dataframe) (PyInt (macd_fast self))
                 (PyInt (macd_slow self)) (PyInt (macd_signal self))) (\<lambda>(m, ms, mh).
     and_then (ta_RSI ta (close dataframe) (PyInt (rsi_period self))) (\<lambda>r.
     and_then (ta_BBANDS ta (close dataframe) (PyInt 20) (PyInt 2) (PyInt 2))
       (\<lambda>(upperband, middleband, lowerband).
     and_then (ta_EMA ta (close dataframe) (PyInt 20)) (\<lambda>e20.
     and_then (ta_EMA ta (close dataframe) (PyInt 50)) (\<lambda>e50.
     and_then (ta_ADX ta (high dataframe) (low dataframe) (close dataframe) (PyInt 14)) (\<lambda>a.
     and_then (ta_STOCH ta (high dataframe) (low dataframe) (close dataframe)
                 (PyInt 14) (PyInt 3) (PyInt 3)) (\<lambda>(slowk, slowd).
     and_then (ta_WILLR ta (high dataframe) (low dataframe) (close dataframe) (PyInt 14))
       (\<lambda>w.
     and_then (ta_CCI ta (high dataframe) (low dataframe) (close dataframe) (PyInt 20))
       (\<lambda>c.
       Inr (indicator_frame fa dataframe
             \<lparr> o_macd = m, o_macdsignal = ms, o_macdhist = mh, o_rsi = r,
               o_upperband = upperband, o_middleband = middleband,
               o_lowerband = lowerband, o_ema_20 = e20, o_ema_50 = e50, o_adx = a,
               o_slowk = slowk, o_slowd = slowd, o_willr = w, o_cci = c \<rparr>))))))))))"

section \<open>Entry and exit signals\<close>

definition long_entry_mask :: "strategy \<Rightarrow> dataframe \<Rightarrow> bool list" where
  "long_entry_mask self dataframe =
     mask_and (eq_c (macd_cross dataframe) 1)
    (mask_and (gt_c (volume_ratio dataframe) (volume_factor self))
    (mask_and (gt_c (price_momentum dataframe) 0.01)
    (mask_and (lt_c (rsi dataframe) (real_of_int (rsi_overbought self)))
    (mask_and (gt_c (rsi dataframe) (real_of_int (rsi_oversold self)))
    (mask_and (gt_cols (to_float (close dataframe)) (ema_20 dataframe))
    (mask_and (gt_c (adx dataframe) 25)
    (mask_and (lt_c (stoch_k dataframe) 80)
    (mask_and (lt_c (stoch_d dataframe) 80)
    (mask_and (gt_c (williams_r dataframe) (- 20))
    (mask_and (lt_c (cci dataframe) 100)
              (lt_c (bb_percent dataframe) 0.8)))))))))))"

definition short_entry_mask :: "strategy \<Rightarrow> dataframe \<Rightarrow> bool list" where
  "short_entry_mask self dataframe =
     mask_and (eq_c (macd_cross_down dataframe) 1)
    (mask_and (gt_c (volume_ratio dataframe) (volume_factor self))
    (mask_and (lt_c (price_momentum dataframe) (- 0.01))
    (mask_and (gt_c (rsi dataframe) (real_of_int (rsi_oversold self)))
    (mask_and (lt_c (rsi dataframe) (real_of_int (rsi_overbought self)))
    (mask_and (lt_cols (to_float (close dataframe)) (ema_20 dataframe))
    (mask_and (gt_c (adx dataframe) 25)
    (mask_and (gt_c (stoch_k dataframe) 20)
    (mask_and (gt_c (stoch_d dataframe) 20)
    (mask_and (lt_c (williams_r dataframe) (- 80))
    (mask_and (gt_c (cci dataframe) (- 100))
              (gt_c (bb_percent dataframe) 0.2)))))))))))"

definition populate_entry_trend :: "strategy \<Rightarrow> dataframe \<Rightarrow> error + dataframe" where
  "populate_entry_trend self dataframe =
     (case loc_set (len dataframe) (long_entry_mask self dataframe) (enter_long dataframe) of
        Inl e \<Rightarrow> Inl e
      | Inr longs \<Rightarrow>
          (case loc_set (len dataframe) (short_entry_mask self dataframe)
                  (enter_short dataframe) of
             Inl e \<Rightarrow> Inl e
           | Inr shorts \<Rightarrow>
               Inr (dataframe\<lparr>enter_long := Some longs, enter_short := Some shorts\<rparr>)))"

definition long_exit_mask :: "strategy \<Rightarrow> dataframe \<Rightarrow> bool list" where
  "long_exit_mask self dataframe =
     mask_or (eq_c (macd_cross_down dataframe) 1)
    (mask_or (gt_c (rsi dataframe) (real_of_int (rsi_overbought self)))
    (mask_or (gt_c (bb_percent dataframe) 0.9)
    (mask_or (gt_c (stoch_k dataframe) 80)
    (mask_or (gt_c (stoch_d dataframe) 80)
    (mask_or (lt_c (williams_r dataframe) (- 20))
    (mask_or (gt_c (cci dataframe) 100)
             (lt_c (price_momentum dataframe) (- 0.02))))))))"

definition short_exit_mask :: "strategy \<Rightarrow> dataframe \<Rightarrow> bool list" where
  "short_exit_mask self dataframe =
     mask_or (eq_c (macd_cross dataframe) 1)
    (mask_or (lt_c (rsi dataframe) (real_of_int (rsi_oversold self)))
    (mask_or (lt_c (bb_percent dataframe) 0.1)
    (mask_or (lt_c (stoch_k dataframe) 20)
    (mask_or (lt_c (stoch_d dataframe) 20)
    (mask_or (gt_c (williams_r dataframe) (- 80))
    (mask_or (lt_c (cci dataframe) (- 100))
             (gt_c (price_momentum dataframe) 0.02)))))))"

definition populate_exit_trend :: "strategy \<Rightarrow> dataframe \<Rightarrow> error + dataframe" where
  "populate_exit_trend self dataframe =
     (case loc_set (len dataframe) (long_exit_mask self dataframe) (exit_long dataframe) of
        Inl e \<Rightarrow> Inl e
      | Inr longs \<Rightarrow>
          (case loc_set (len dataframe) (short_exit_mask self dataframe)
                  (exit_short dataframe) of
             Inl e \<Rightarrow> Inl e
           | Inr shorts \<Rightarrow>
               Inr (dataframe\<lparr>exit_long := Some longs, exit_short := Some shorts\<rparr>)))"

text \<open>
  The methods do not work on a value: each receives a reference to the frame, and
  \<open>dataframe.loc[mask, column] = 1\<close> writes into the object behind it. A heap maps
  references to frames. Each statement of the source is a step on the heap, and
  \<open>return dataframe\<close> gives back the reference the method was given.
\<close>

type_synonym ref = nat

type_synonym heap = "ref \<Rightarrow> dataframe"

datatype signal_column = EnterLong | EnterShort | ExitLong | ExitShort

fun get_signal :: "signal_column \<Rightarrow> dataframe \<Rightarrow> fl list option" where
  "get_signal EnterLong df = enter_long df"
| "get_signal EnterShort df = enter_short df"
| "get_signal ExitLong df = exit_long df"
| "get_signal ExitShort df = exit_short df"

fun set_signal :: "signal_column \<Rightarrow> fl list option \<Rightarrow> dataframe \<Rightarrow> dataframe" where
  "set_signal EnterLong v df = df\<lparr>enter_long := v\<rparr>"
| "set_signal EnterShort v df = df\<lparr>enter_short := v\<rparr>"
| "set_signal ExitLong v df = df\<lparr>exit_long := v\<rparr>"
| "set_signal ExitShort v df = df\<lparr>exit_short := v\<rparr>"

definition loc_assign ::
  "ref \<Rightarrow> bool list \<Rightarrow> signal_column \<Rightarrow> heap \<Rightarrow> error + heap" where
  "loc_assign r cond col h =
     (case loc_set (len (h r)) cond (get_signal col (h r)) of
        Inl e \<Rightarrow> Inl e
      | Inr xs \<Rightarrow> Inr (h(r := set_signal col (Some xs) (h r))))"

definition populate_entry_trend_call ::
  "strategy \<Rightarrow> ref \<Rightarrow> heap \<Rightarrow> error + ref \<times> heap" where
  "populate_entry_trend_call self r h =
     (case loc_assign r (long_entry_mask self (h r)) EnterLong h of
        Inl e \<Rightarrow> Inl e
      | Inr h1 \<Rightarrow>
          (case loc_assign r (short_entry_mask self (h1 r)) EnterShort h1 of
             Inl e \<Rightarrow> Inl e
           | Inr h2 \<Rightarrow> Inr (r, h2)))"

definition populate_exit_trend_call ::
  "strategy \<Rightarrow> ref \<Rightarrow> heap \<Rightarrow> error + ref \<times> heap" where
  "populate_exit_trend_call self r h =
     (case loc_assign r (long_exit_mask self (h r)) ExitLong h of
        Inl e \<Rightarrow> Inl e
      | Inr h1 \<Rightarrow>
          (case loc_assign r (short_exit_mask self (h1 r)) ExitShort h1 of
             Inl e \<Rightarrow> Inl e
           | Inr h2 \<Rightarrow> Inr (r, h2)))"

section \<open>Custom stop-loss\<close>

text \<open>
  \<open>custom_stoploss\<close> reads the trade's opening time and side. Times are datetimes of
  microsecond resolution, modelled as a count of microseconds; \<open>total_seconds\<close> of their
  difference is that count divided by one million.
\<close>

record trade =
  open_date_utc :: int
  is_short :: bool

definition total_seconds :: "int \<Rightarrow> real" where
  "total_seconds delta = real_of_int delta / 1000000"

definition custom_stoploss :: "strategy \<Rightarrow> trade \<Rightarrow> int \<Rightarrow> fl \<Rightarrow> real" where
  "custom_stoploss self trd current_time current_profit =
     (if total_seconds (current_time - open_date_utc trd) < 600 then stoploss self
      else if is_short trd then
        (if fl_gt current_profit (Fin 0.02) then 0.02
         else if fl_gt current_profit (Fin 0.01) then 0.015
         else stoploss self)
      else
        (if fl_gt current_profit (Fin 0.02) then - 0.02
         else if fl_gt current_profit (Fin 0.01) then - 0.015
         else stoploss self))"

section \<open>Dynamic leverage\<close>

text \<open>
  \<open>leverage\<close> fetches the analysed frame of the pair from the host's data provider; the
  frame is a parameter here. \<open>combined_volatility\<close> is the local variable of that name,
  computed on the branch for at least 20 candles, where the columns of a well-formed
  frame are not empty and \<open>iloc[-1]\<close> reads their last cell. \<open>leverage_multiplier\<close> is
  the local variable of that name; its second threshold is the floating-point product
  \<open>volatility_threshold * 0.7\<close>. The product of the integer base leverage with 0.5, 0.75
  or 1.0 is exact in binary floating point.
\<close>

definition combined_volatility :: "float_ops \<Rightarrow> 'a ohlcv_scheme \<Rightarrow> fl" where
  "combined_volatility fa dataframe =
     (let recent_returns = dropna (pct_change fa 1 (close dataframe));
          volatility = std fa recent_returns;
          atr = col_sub fa (rolling_max 14 (high dataframe)) (rolling_min 14 (low dataframe));
          atr_volatility =
            (if length atr > 0 then f_div fa (last atr) (Fin (last (close dataframe)))
             else Fin 0.02)
      in py_max volatility atr_volatility)"

definition leverage_multiplier :: "float_ops \<Rightarrow> strategy \<Rightarrow> fl \<Rightarrow> real" where
  "leverage_multiplier fa self cv =
     (if fl_gt cv (Fin (volatility_threshold self)) then 0.5
      else if fl_gt cv (f_mul fa (Fin (volatility_threshold self)) (Fin 0.7)) then 0.75
      else 1.0)"

definition leverage ::
  "float_ops \<Rightarrow> strategy \<Rightarrow> 'a ohlcv_scheme \<Rightarrow> real \<Rightarrow> real \<Rightarrow> real" where
  "leverage fa self dataframe proposed_leverage max_leverage_arg =
     (if len dataframe < 20 then min proposed_leverage (real_of_int (base_leverage self))
      else
        let calculated_leverage =
              real_of_int (base_leverage self)
                * leverage_multiplier fa self (combined_volatility fa dataframe)
        in max 1 (min calculated_leverage
                    (min (real_of_int (max_leverage self)) max_leverage_arg)))"

section \<open>The leverage rule in the words of the specification\<close>

text \<open>
  The definitions of this section follow the specification, not the code: the standard
  deviation of the one-period percent returns, the range of the last 14 candles over the
  latest close, the larger of the two, the three tiers and the clamp, in the same
  floating-point operations. They are compared with \<open>leverage\<close> below.
\<close>

definition spec_returns :: "float_ops \<Rightarrow> real list \<Rightarrow> fl list" where
  "spec_returns fa cs =
     map (\<lambda>i. f_sub fa (f_div fa (Fin (cs ! (i + 1))) (Fin (cs ! i))) (Fin 1))
       [0..<length cs - 1]"

definition spec_range_volatility :: "float_ops \<Rightarrow> 'a ohlcv_scheme \<Rightarrow> fl" where
  "spec_range_volatility fa df =
     f_div fa
       (f_sub fa (Fin (Max (set (drop (length (high df) - 14) (high df)))))
          (Fin (Min (set (drop (length (low df) - 14) (low df))))))
       (Fin (last (close df)))"

definition spec_max :: "fl \<Rightarrow> fl \<Rightarrow> fl" where
  "spec_max a b = (if fl_lt a b then b else a)"

definition spec_combined_volatility :: "float_ops \<Rightarrow> 'a ohlcv_scheme \<Rightarrow> fl" where
  "spec_combined_volatility fa df =
     spec_max (std fa (spec_returns fa (close df))) (spec_range_volatility fa df)"

definition spec_multiplier :: "float_ops \<Rightarrow> real \<Rightarrow> fl \<Rightarrow> real" where
  "spec_multiplier fa threshold cv =
     (if fl_gt cv (Fin threshold) then 0.5
      else if fl_gt cv (f_mul fa (Fin threshold) (Fin 0.7)) then 0.75
      else 1.0)"

definition spec_clamp :: "real \<Rightarrow> real \<Rightarrow> real \<Rightarrow> real" where
  "spec_clamp x lower upper = max lower (min x upper)"

definition spec_leverage :: "float_ops \<Rightarrow> strategy \<Rightarrow> 'a ohlcv_scheme \<Rightarrow> real \<Rightarrow> real" where
  "spec_leverage fa self df host_max =
     spec_clamp
       (real_of_int (base_leverage self)
          * spec_multiplier fa (volatility_threshold self) (spec_combined_volatility fa df))
       1 (min (real_of_int (max_leverage self)) host_max)"

section \<open>The short entry rule in the words of the specification\<close>

text \<open>
  The short entry as the specification lists it, with the condition on Williams %R left
  open: the specification pairs the long threshold \<open>-20\<close> with "\<open>\<plusminus>20\<close>", the code
  with \<open>-80\<close>.
\<close>

definition spec_short_entry ::
  "(fl \<Rightarrow> bool) \<Rightarrow> strategy \<Rightarrow> dataframe \<Rightarrow> nat \<Rightarrow> bool" where
  "spec_short_entry williams_ok self df i =
     (macd_cross_down df ! i = Fin 1
      \<and> fl_gt (volume_ratio df ! i) (Fin (volume_factor self))
      \<and> fl_lt (price_momentum df ! i) (Fin (- 0.01))
      \<and> fl_lt (Fin (real_of_int (rsi_oversold self))) (rsi df ! i)
      \<and> fl_lt (rsi df ! i) (Fin (real_of_int (rsi_overbought self)))
      \<and> fl_lt (Fin (close df ! i)) (ema_20 df ! i)
      \<and> fl_gt (adx df ! i) (Fin 25)
      \<and> fl_gt (stoch_k df ! i) (Fin 20)
      \<and> fl_gt (stoch_d df ! i) (Fin 20)
      \<and> williams_ok (williams_r df ! i)
      \<and> fl_gt (cci df ! i) (Fin (- 100))
      \<and> fl_gt (bb_percent df ! i) (Fin 0.2))"

section \<open>Example inputs\<close>

text \<open>
  An arithmetic for the examples: the operations of the real numbers, with the special
  values treated as IEEE 754 does and a zero denominator taken as positive zero, except
  that the product of 0.05 and 0.7 is the one of the machine, \<open>0.034999999999999996\<close>.
  On the inputs of the examples below the machine's rounding changes no comparison.
\<close>

fun fl_neg :: "fl \<Rightarrow> fl" where
  "fl_neg NaN = NaN"
| "fl_neg NInf = PInf"
| "fl_neg (Fin a) = Fin (- a)"
| "fl_neg PInf = NInf"

fun fl_add :: "fl \<Rightarrow> fl \<Rightarrow> fl" where
  "fl_add (Fin a) (Fin b) = Fin (a + b)"
| "fl_add NaN _ = NaN"
| "fl_add _ NaN = NaN"
| "fl_add PInf NInf = NaN"
| "fl_add NInf PInf = NaN"
| "fl_add PInf _ = PInf"
| "fl_add _ PInf = PInf"
| "fl_add NInf _ = NInf"
| "fl_add _ NInf = NInf"

definition fl_sub :: "fl \<Rightarrow> fl \<Rightarrow> fl" where
  "fl_sub a b = fl_add a (fl_neg b)"

fun fl_mul :: "fl \<Rightarrow> fl \<Rightarrow> fl" where
  "fl_mul (Fin a) (Fin b) = Fin (a * b)"
| "fl_mul NaN _ = NaN"
| "fl_mul _ NaN = NaN"
| "fl_mul (Fin a) y = (if a = 0 then NaN else if (0 < a) = (y = PInf) then PInf else NInf)"
| "fl_mul x (Fin b) = (if b = 0 then NaN else if (0 < b) = (x = PInf) then PInf else NInf)"
| "fl_mul x y = (if x = y then PInf else NInf)"

fun fl_div :: "fl \<Rightarrow> fl \<Rightarrow> fl" where
  "fl_div (Fin a) (Fin b) =
     (if b = 0 then (if a = 0 then NaN else if 0 < a then PInf else NInf) else Fin (a / b))"
| "fl_div NaN _ = NaN"
| "fl_div _ NaN = NaN"
| "fl_div (Fin a) y = Fin 0"
| "fl_div x (Fin b) = (if (0 \<le> b) = (x = PInf) then PInf else NInf)"
| "fl_div x y = NaN"

fun fl_sqrt :: "fl \<Rightarrow> fl" where
  "fl_sqrt (Fin a) = (if a < 0 then NaN else Fin (sqrt a))"
| "fl_sqrt PInf = PInf"
| "fl_sqrt _ = NaN"

definition fl_sum :: "fl list \<Rightarrow> fl" where
  "fl_sum xs = foldl fl_add (Fin 0) xs"

definition exact_std :: "fl list \<Rightarrow> fl" where
  "exact_std v =
     (let avg = fl_div (fl_sum v) (Fin (real (length v)));
          sqr = map (\<lambda>x. fl_mul (fl_sub avg x) (fl_sub avg x)) v
      in fl_sqrt (fl_div (fl_sum sqr) (Fin (real (length v - 1)))))"

definition example_mul :: "fl \<Rightarrow> fl \<Rightarrow> fl" where
  "example_mul a b =
     (if a = Fin 0.05 \<and> b = Fin 0.7 then Fin 0.034999999999999996 else fl_mul a b)"

definition example_floats :: float_ops where
  "example_floats =
     \<lparr> f_sub = fl_sub, f_mul = example_mul, f_div = fl_div, f_std = exact_std,
       f_rolling_mean = (\<lambda>w xs. Fin (sum_list (drop (length xs - w) xs) / real w)) \<rparr>"

text \<open>A frame of \<open>n\<close> equal candles.\<close>

definition constant_candles :: "nat \<Rightarrow> real \<Rightarrow> real \<Rightarrow> real \<Rightarrow> ohlcv" where
  "constant_candles n h l c =
     \<lparr> date = map int [0..<n], open_col = replicate n c, high = replicate n h,
       low = replicate n l, close = replicate n c, volume = replicate n 1000 \<rparr>"

text \<open>The five candles of \<open>test_indicators_with_insufficient_data\<close>.\<close>

definition five_candles :: ohlcv where
  "five_candles =
     \<lparr> date = [0, 1, 2, 3, 4], open_col = [100, 101, 102, 103, 104],
       high = [101, 102, 103, 104, 105], low = [99, 100, 101, 102, 103],
       close = [101, 102, 103, 104, 105], volume = [1000, 1100, 1200, 1300, 1400] \<rparr>"

text \<open>
  TA-Lib on a series shorter than every lookback window: each output column is \<open>NaN\<close>
  throughout.
\<close>

definition nans :: "real list \<Rightarrow> fl list" where
  "nans xs = replicate (length xs) NaN"

definition warmup_talib :: talib where
  "warmup_talib =
     \<lparr> MACD = (\<lambda>c f s g. (nans c, nans c, nans c)),
       RSI = (\<lambda>c p. nans c),
       BBANDS = (\<lambda>c p u d. (nans c, nans c, nans c)),
       EMA = (\<lambda>c p. nans c),
       ADX = (\<lambda>h l c p. nans c),
       STOCH = (\<lambda>h l c k sk sd. (nans c, nans c)),
       WILLR = (\<lambda>h l c p. nans c),
       CCI = (\<lambda>h l c p. nans c) \<rparr>"


text \<open>
  A frame of one row in which every oscillator is in its neutral band and no crossover
  happens, and three variations of it: a long entry, a short setup with Williams %R at
  \<open>-50\<close>, and the same with Williams %R at \<open>-90\<close>.
\<close>

definition neutral_frame :: dataframe where
  "neutral_frame =
     \<lparr> date = [0], open_col = [100], high = [101], low = [99], close = [100],
       volume = [1000], macd = [Fin 0], macdsignal = [Fin 0], macdhist = [Fin 0],
       rsi = [Fin 50], bb_lowerband = [Fin 95], bb_middleband = [Fin 100],
       bb_upperband = [Fin 105], bb_percent = [Fin 0.5], bb_width = [Fin 0.1],
       volume_mean = [Fin 1000], volume_ratio = [Fin 1], price_change = [Fin 0],
       price_momentum = [Fin 0], ema_20 = [Fin 100], ema_50 = [Fin 100], adx = [Fin 20],
       stoch_k = [Fin 50], stoch_d = [Fin 50], williams_r = [Fin (- 50)], cci = [Fin 0],
       macd_cross = [Fin 0], macd_cross_down = [Fin 0], enter_long = None,
       enter_short = None, exit_long = None, exit_short = None \<rparr>"

definition long_entry_frame :: dataframe where
  "long_entry_frame =
     neutral_frame\<lparr> close := [101], macd_cross := [Fin 1], volume_ratio := [Fin 2],
       price_momentum := [Fin 0.02], adx := [Fin 30], williams_r := [Fin (- 10)] \<rparr>"

definition short_setup_frame :: dataframe where
  "short_setup_frame =
     neutral_frame\<lparr> close := [99], macd_cross_down := [Fin 1], volume_ratio := [Fin 2],
       price_momentum := [Fin (- 0.02)], adx := [Fin 30] \<rparr>"

definition short_entry_frame :: dataframe where
  "short_entry_frame = short_setup_frame\<lparr> williams_r := [Fin (- 90)] \<rparr>"

section \<open>Properties of the stop-loss evaluator\<close>

lemma fl_gt_Fin [simp]: "fl_gt (Fin a) (Fin b) = (b < a)"
  by (simp add: fl_gt_def)

lemma fl_le_Fin [simp]: "fl_le (Fin a) (Fin b) = (a \<le> b)"
  by (auto simp: fl_le_def)

lemma fl_gt_trans_Fin: "fl_gt x (Fin a) \<Longrightarrow> b \<le> a \<Longrightarrow> fl_gt x (Fin b)"
  by (cases x) (auto simp: fl_gt_def)

lemma fl_le_not_gt: "fl_le x (Fin a) \<Longrightarrow> \<not> fl_gt x (Fin a)"
  by (cases x) (auto simp: fl_le_def fl_gt_def)

text \<open>
  Claim C3. During the first 600 seconds after the trade was opened the evaluator
  returns the default stop ratio whatever the profit and the side. Afterwards a profit
  above 0.02 gives a ratio of magnitude 0.02, a profit above 0.01 and at most 0.02 gives
  magnitude 0.015, negative for a long and positive for a short position, and a profit
  of at most 0.01 gives the default stop ratio unchanged for both sides.
\<close>

theorem custom_stoploss_tiers:
  fixes self :: strategy and trd :: trade
  defines "elapsed t \<equiv> total_seconds (t - open_date_utc trd)"
  shows "(elapsed t < 600 \<longrightarrow> custom_stoploss self trd t profit = stoploss self)
       \<and> (\<not> elapsed t < 600 \<and> fl_gt profit (Fin 0.02) \<longrightarrow>
            custom_stoploss self trd t profit = (if is_short trd then 0.02 else - 0.02))
       \<and> (\<not> elapsed t < 600 \<and> fl_gt profit (Fin 0.01) \<and> fl_le profit (Fin 0.02) \<longrightarrow>
            custom_stoploss self trd t profit = (if is_short trd then 0.015 else - 0.015))
       \<and> (\<not> elapsed t < 600 \<and> fl_le profit (Fin 0.01) \<longrightarrow>
            custom_stoploss self trd t profit = stoploss self)"
proof -
  have le1: "fl_le profit (Fin 0.01) \<Longrightarrow> \<not> fl_gt profit (Fin 0.02)"
    using fl_gt_trans_Fin [of profit "0.02" "0.01"] fl_le_not_gt [of profit "0.01"] by auto
  show ?thesis
    unfolding elapsed_def custom_stoploss_def
    using fl_le_not_gt [of profit "0.02"] fl_le_not_gt [of profit "0.01"] le1
    by auto
qed

theorem custom_stoploss_tiers_witness:
  "total_seconds (300000000 - open_date_utc \<lparr>open_date_utc = 0, is_short = True\<rparr>) < 600
   \<and> custom_stoploss default_strategy \<lparr>open_date_utc = 0, is_short = True\<rparr>
         300000000 (Fin 0.03) = - 0.10
   \<and> \<not> total_seconds (900000000 - open_date_utc \<lparr>open_date_utc = 0, is_short = False\<rparr>) < 600
   \<and> fl_gt (Fin 0.03) (Fin 0.02)
   \<and> custom_stoploss default_strategy \<lparr>open_date_utc = 0, is_short = False\<rparr>
         900000000 (Fin 0.03) = - 0.02
   \<and> fl_gt (Fin 0.015) (Fin 0.01) \<and> fl_le (Fin 0.015) (Fin 0.02)
   \<and> custom_stoploss default_strategy \<lparr>open_date_utc = 0, is_short = True\<rparr>
         900000000 (Fin 0.015) = 0.015
   \<and> fl_le (Fin 0.005) (Fin 0.01)
   \<and> custom_stoploss default_strategy \<lparr>open_date_utc = 0, is_short = False\<rparr>
         900000000 (Fin 0.005) = - 0.10"
  using
    custom_stoploss_tiers [of 300000000 "\<lparr>open_date_utc = 0, is_short = True\<rparr>"
      default_strategy "Fin 0.03"]
    custom_stoploss_tiers [of 900000000 "\<lparr>open_date_utc = 0, is_short = False\<rparr>"
      default_strategy "Fin 0.03"]
    custom_stoploss_tiers [of 900000000 "\<lparr>open_date_utc = 0, is_short = True\<rparr>"
      default_strategy "Fin 0.015"]
    custom_stoploss_tiers [of 900000000 "\<lparr>open_date_utc = 0, is_short = False\<rparr>"
      default_strategy "Fin 0.005"]
  by (simp add: total_seconds_def default_strategy_def)

section \<open>Properties of the leverage evaluator\<close>

text \<open>
  Claim C4. With fewer than 20 candles in the frame the leverage evaluator returns
  exactly the smaller of the proposed leverage and the base leverage, for every
  proposed leverage and every leverage limit of the host.
\<close>

theorem leverage_insufficient_history:
  "len dataframe < 20 \<Longrightarrow>
   leverage fa self dataframe proposed_leverage host_max
     = min proposed_leverage (real_of_int (base_leverage self))"
  by (simp add: leverage_def)

text \<open>Helper facts: the tiers and the clamp are monotone.\<close>

lemma fl_gt_mono: "fl_ge a b \<Longrightarrow> fl_gt b t \<Longrightarrow> fl_gt a t"
  by (cases a; cases b; cases t) (auto simp: fl_ge_def fl_le_def fl_gt_def)

lemma leverage_multiplier_antitone:
  "fl_ge a b \<Longrightarrow> leverage_multiplier fa self a \<le> leverage_multiplier fa self b"
  using fl_gt_mono [of a b "Fin (volatility_threshold self)"]
    fl_gt_mono [of a b "f_mul fa (Fin (volatility_threshold self)) (Fin 0.7)"]
  by (auto simp: leverage_multiplier_def)

lemma leverage_multiplier_pos: "0 < leverage_multiplier fa self a"
  by (auto simp: leverage_multiplier_def)

lemma leverage_unfold:
  "\<not> len df < 20 \<Longrightarrow>
   leverage fa self df p hm =
     max 1 (min (real_of_int (base_leverage self)
                  * leverage_multiplier fa self (combined_volatility fa df))
              (min (real_of_int (max_leverage self)) hm))"
  by (simp add: leverage_def Let_def)

lemma clamp_antitone:
  fixes b :: real
  assumes "m1 \<le> m2" and "0 < m1"
  shows "max 1 (min (b * m1) u) \<le> max 1 (min (b * m2) u)"
proof (cases "0 \<le> b")
  case True
  then have "b * m1 \<le> b * m2"
    using assms by (simp add: mult_left_mono)
  then show ?thesis
    by (auto simp: max_def min_def)
next
  case False
  then have "b * m1 < 0" and "b * m2 < 0"
    using assms by (auto simp: mult_neg_pos)
  then show ?thesis
    by (auto simp: max_def min_def)
qed

text \<open>Evaluation of the volatility on two frames of twenty equal candles.\<close>

lemma upt_20: "[0..<20] = [0,1,2,3,4,5,6,7,8,9,10,11,12,13,14,15,16,17,18,19]"
  by (simp add: upt_rec)

lemma replicate_20: "replicate 20 x = [x,x,x,x,x,x,x,x,x,x,x,x,x,x,x,x,x,x,x,x]"
  by (simp add: eval_nat_numeral)

lemmas volatility_eval =
  combined_volatility_def constant_candles_def pct_change_def replicate_20 upt_20
  col_sub_def dropna_def std_def example_floats_def exact_std_def
  fl_sum_def rolling_max_def rolling_min_def window_def fl_sub_def py_max_def Let_def

lemma combined_volatility_wide_range:
  "combined_volatility example_floats (constant_candles 20 110 100 100) = Fin 0.1"
  by (simp add: volatility_eval)

lemma combined_volatility_flat:
  "combined_volatility example_floats (constant_candles 20 100 100 100) = Fin 0"
  by (simp add: volatility_eval)

lemma len_constant_candles [simp]: "len (constant_candles n h l c) = n"
  by (simp add: len_def constant_candles_def)

lemma wf_constant_candles [simp]: "wf_ohlcv (constant_candles n h l c)"
  by (simp add: wf_ohlcv_def len_def constant_candles_def)

lemma threshold_product:
  "f_mul example_floats (Fin (volatility_threshold default_strategy)) (Fin 0.7)
     = Fin 0.034999999999999996"
  by (simp add: example_floats_def example_mul_def default_strategy_def)

text \<open>
  A combined volatility of 0.035 lies between the product \<open>0.05 * 0.7\<close> of the machine
  and the threshold 0.05: the multiplier is 0.75.
\<close>

lemma combined_volatility_second_tier:
  "combined_volatility example_floats (constant_candles 20 103.5 100 100) = Fin 0.035"
  by (simp add: volatility_eval)

lemma leverage_second_tier:
  "leverage example_floats default_strategy (constant_candles 20 103.5 100 100) 3 20 = 7.5"
proof -
  have l: "\<not> len (constant_candles 20 103.5 100 100) < 20"
    by simp
  show ?thesis
    unfolding leverage_unfold [OF l] combined_volatility_second_tier
      leverage_multiplier_def threshold_product
    by (simp add: default_strategy_def)
qed

theorem leverage_insufficient_history_witness:
  "len (constant_candles 19 110 100 100) < 20
   \<and> leverage example_floats default_strategy (constant_candles 19 110 100 100) 3 20 = 3
   \<and> leverage example_floats default_strategy (constant_candles 19 110 100 100) 50 20 = 10"
  using
    leverage_insufficient_history
      [of "constant_candles 19 110 100 100" example_floats default_strategy 3 20]
    leverage_insufficient_history
      [of "constant_candles 19 110 100 100" example_floats default_strategy 50 20]
  by (simp add: default_strategy_def)

text \<open>
  Claim C10. For two frames of at least 20 candles, evaluated with the same strategy
  parameters and the same leverage limit of the host, a combined volatility of the first
  that is at least that of the second gives a leverage for the first that is at most the
  leverage for the second.
\<close>

theorem leverage_antitone_in_volatility:
  assumes "20 \<le> len df1" and "20 \<le> len df2"
    and "fl_ge (combined_volatility fa df1) (combined_volatility fa df2)"
  shows "leverage fa self df1 p1 host_max \<le> leverage fa self df2 p2 host_max"
  using assms(1,2)
    clamp_antitone [OF leverage_multiplier_antitone [OF assms(3)] leverage_multiplier_pos]
  by (simp add: leverage_unfold)

theorem leverage_antitone_in_volatility_witness:
  "20 \<le> len (constant_candles 20 110 100 100)
   \<and> 20 \<le> len (constant_candles 20 100 100 100)
   \<and> fl_ge (combined_volatility example_floats (constant_candles 20 110 100 100))
        (combined_volatility example_floats (constant_candles 20 100 100 100))
   \<and> leverage example_floats default_strategy (constant_candles 20 110 100 100) 3 20 = 5
   \<and> leverage example_floats default_strategy (constant_candles 20 100 100 100) 3 20 = 10
   \<and> leverage example_floats default_strategy (constant_candles 20 110 100 100) 3 20
        \<le> leverage example_floats default_strategy (constant_candles 20 100 100 100) 3 20"
proof -
  have a: "leverage example_floats default_strategy (constant_candles 20 110 100 100) 3 20 = 5"
    by (simp add: leverage_unfold combined_volatility_wide_range leverage_multiplier_def)
       (simp add: default_strategy_def)
  have b: "leverage example_floats default_strategy (constant_candles 20 100 100 100) 3 20 = 10"
    by (simp add: leverage_unfold combined_volatility_flat leverage_multiplier_def
        threshold_product)
       (simp add: default_strategy_def)
  show ?thesis
    using leverage_antitone_in_volatility [of "constant_candles 20 110 100 100"
        "constant_candles 20 100 100 100" example_floats default_strategy 3 20 3] a b
    by (simp add: combined_volatility_wide_range combined_volatility_flat fl_ge_def)
qed

text \<open>Helper facts for the comparison with the specification.\<close>

lemma dropna_idem: "dropna (dropna xs) = dropna xs"
  by (simp add: dropna_def)

lemma std_dropna: "std fa (dropna xs) = std fa xs"
  by (simp add: std_def dropna_idem)

lemma pct_change_1:
  assumes "cs \<noteq> []"
  shows "pct_change fa 1 cs = NaN # spec_returns fa cs"
proof (rule nth_equalityI)
  show "length (pct_change fa 1 cs) = length (NaN # spec_returns fa cs)"
    using assms by (cases cs) (simp_all add: pct_change_def spec_returns_def)
next
  fix i assume "i < length (pct_change fa 1 cs)"
  then have i: "i < length cs"
    by (simp add: pct_change_def)
  show "pct_change fa 1 cs ! i = (NaN # spec_returns fa cs) ! i"
  proof (cases i)
    case 0
    then show ?thesis
      using i by (simp add: pct_change_def)
  next
    case (Suc j)
    then have "j < length cs - 1"
      using i by simp
    then show ?thesis
      using i Suc by (simp add: pct_change_def spec_returns_def)
  qed
qed

lemma fold_max_window:
  "w \<noteq> [] \<Longrightarrow> fold max (tl w) (hd w) = Max (set (w :: real list))"
  using Max.set_eq_fold [of "hd w" "tl w"] by simp

lemma fold_min_window:
  "w \<noteq> [] \<Longrightarrow> fold min (tl w) (hd w) = Min (set (w :: real list))"
  using Min.set_eq_fold [of "hd w" "tl w"] by simp

lemma window_last:
  "0 < w \<Longrightarrow> w \<le> length xs \<Longrightarrow> window w (length xs - 1) xs = drop (length xs - w) xs"
  by (simp add: window_def)

lemma last_map_upt: "0 < n \<Longrightarrow> last (map f [0..<n]) = f (n - 1)"
  by (cases n) simp_all

lemma last_rolling_max:
  assumes "14 \<le> length xs"
  shows "last (rolling_max 14 xs) = Fin (Max (set (drop (length xs - 14) xs)))"
proof -
  have n: "0 < length xs" and k: "\<not> length xs - 1 + 1 < 14"
    using assms by auto
  have w: "window 14 (length xs - 1) xs = drop (length xs - 14) xs"
    using assms by (intro window_last) auto
  have ne: "drop (length xs - 14) xs \<noteq> []"
    using assms by auto
  show ?thesis
    unfolding rolling_max_def last_map_upt [OF n] w fold_max_window [OF ne]
    using k by simp
qed

lemma last_rolling_min:
  assumes "14 \<le> length xs"
  shows "last (rolling_min 14 xs) = Fin (Min (set (drop (length xs - 14) xs)))"
proof -
  have n: "0 < length xs" and k: "\<not> length xs - 1 + 1 < 14"
    using assms by auto
  have w: "window 14 (length xs - 1) xs = drop (length xs - 14) xs"
    using assms by (intro window_last) auto
  have ne: "drop (length xs - 14) xs \<noteq> []"
    using assms by auto
  show ?thesis
    unfolding rolling_min_def last_map_upt [OF n] w fold_min_window [OF ne]
    using k by simp
qed

lemma last_map2:
  "length xs = length ys \<Longrightarrow> xs \<noteq> [] \<Longrightarrow> last (map2 f xs ys) = f (last xs) (last ys)"
  by (induction xs ys rule: list_induct2) auto

lemma combined_volatility_refines:
  assumes "wf_ohlcv df" and "20 \<le> len df"
  shows "combined_volatility fa df = spec_combined_volatility fa df"
proof -
  have lens: "length (high df) = len df" "length (low df) = len df"
    "length (close df) = len df"
    using assms(1) by (simp_all add: wf_ohlcv_def)
  have cne: "close df \<noteq> []"
    using lens assms(2) by auto
  have ret: "std fa (dropna (pct_change fa 1 (close df)))
      = std fa (spec_returns fa (close df))"
    unfolding pct_change_1 [OF cne] std_dropna
    by (simp add: std_def dropna_def)
  have rl: "length (rolling_max 14 (high df)) = length (rolling_min 14 (low df))"
    "rolling_max 14 (high df) \<noteq> []"
    using lens assms(2) by (auto simp: rolling_max_def rolling_min_def)
  have h14: "14 \<le> length (high df)" and l14: "14 \<le> length (low df)"
    using lens assms(2) by auto
  have atr: "last (col_sub fa (rolling_max 14 (high df)) (rolling_min 14 (low df)))
      = f_sub fa (Fin (Max (set (drop (length (high df) - 14) (high df)))))
          (Fin (Min (set (drop (length (low df) - 14) (low df)))))"
    unfolding col_sub_def last_map2 [OF rl] last_rolling_max [OF h14]
      last_rolling_min [OF l14]
    by simp
  have pos: "0 < length (col_sub fa (rolling_max 14 (high df)) (rolling_min 14 (low df)))"
    using lens assms(2) by (simp add: col_sub_def rolling_max_def rolling_min_def)
  show ?thesis
    unfolding combined_volatility_def Let_def ret atr
    using pos
    by (simp add: py_max_def spec_max_def fl_gt_def spec_combined_volatility_def
        spec_range_volatility_def)
qed

lemma leverage_multiplier_spec:
  "leverage_multiplier fa self cv = spec_multiplier fa (volatility_threshold self) cv"
  by (simp add: leverage_multiplier_def spec_multiplier_def)

text \<open>
  Claim C5, as amended. For a frame of at least 20 candles the combined volatility is
  the larger of the standard deviation of the one-period percent returns and the
  14-candle range over the latest close, the multiplier is 0.5, 0.75 or 1.0 by the two
  thresholds, and the result is the clamp of base leverage times multiplier: at least 1
  in every case, at most the smaller of the configured and the host's leverage limit
  when that limit is at least 1, and equal to 1 when that limit is below 1.
\<close>

theorem leverage_enough_history_spec:
  assumes "wf_ohlcv df" and "20 \<le> len df"
  shows "combined_volatility fa df = spec_combined_volatility fa df
       \<and> leverage fa self df proposed host_max = spec_leverage fa self df host_max
       \<and> 1 \<le> leverage fa self df proposed host_max
       \<and> (1 \<le> min (real_of_int (max_leverage self)) host_max \<longrightarrow>
             leverage fa self df proposed host_max
               \<le> min (real_of_int (max_leverage self)) host_max)
       \<and> (min (real_of_int (max_leverage self)) host_max < 1 \<longrightarrow>
             leverage fa self df proposed host_max = 1)"
  using assms(2) combined_volatility_refines [OF assms, of fa]
  by (auto simp: leverage_unfold leverage_multiplier_spec spec_leverage_def spec_clamp_def)

theorem leverage_enough_history_spec_witness:
  "wf_ohlcv (constant_candles 20 110 100 100)
   \<and> 20 \<le> len (constant_candles 20 110 100 100)
   \<and> 1 \<le> min (real_of_int (max_leverage default_strategy)) 25
   \<and> min (real_of_int (max_leverage default_strategy)) 0.75 < 1
   \<and> spec_combined_volatility example_floats (constant_candles 20 110 100 100) = Fin 0.1
   \<and> spec_leverage example_floats default_strategy (constant_candles 20 110 100 100) 25 = 5
   \<and> leverage example_floats default_strategy (constant_candles 20 110 100 100) 3 25 = 5
   \<and> leverage example_floats default_strategy (constant_candles 20 110 100 100) 3 0.75 = 1"
proof -
  let ?df = "constant_candles 20 110 100 100"
  have lev: "leverage example_floats default_strategy ?df 3 25 = 5"
    by (simp add: leverage_unfold combined_volatility_wide_range leverage_multiplier_def)
       (simp add: default_strategy_def)
  have lim: "1 \<le> min (real_of_int (max_leverage default_strategy)) 25"
    "min (real_of_int (max_leverage default_strategy)) 0.75 < 1"
    by (simp_all add: default_strategy_def)
  have "spec_combined_volatility example_floats ?df = Fin 0.1"
    and "spec_leverage example_floats default_strategy ?df 25 = 5"
    and "leverage example_floats default_strategy ?df 3 0.75 = 1"
    using leverage_enough_history_spec [of ?df example_floats default_strategy 3 25]
      leverage_enough_history_spec [of ?df example_floats default_strategy 3 "0.75"] lev lim
    by (simp_all add: combined_volatility_wide_range)
  then show ?thesis
    using lev lim by simp
qed

text \<open>
  The claim as stated fails when the host's limit is below 1: the result is 1, above
  the limit.
\<close>

theorem leverage_upper_bound_counterexample:
  "leverage example_floats default_strategy (constant_candles 20 100 100 100) 3 0.5 = 1
   \<and> \<not> leverage example_floats default_strategy (constant_candles 20 100 100 100) 3 0.5
         \<le> min (real_of_int (max_leverage default_strategy)) 0.5"
  by (simp add: leverage_unfold combined_volatility_flat leverage_multiplier_def
      threshold_product)

section \<open>Facts about columns and masks\<close>

text \<open>Lengths and cells of the element-wise operations, position by position.\<close>

lemma lt_length_mask_and [simp]:
  "i < length (mask_and ms ns) \<longleftrightarrow> i < length ms \<and> i < length ns"
  by (simp add: mask_and_def)

lemma nth_mask_and [simp]:
  "i < length ms \<Longrightarrow> i < length ns \<Longrightarrow> mask_and ms ns ! i = (ms ! i \<and> ns ! i)"
  by (simp add: mask_and_def)

lemma lt_length_mask_or [simp]:
  "i < length (mask_or ms ns) \<longleftrightarrow> i < length ms \<and> i < length ns"
  by (simp add: mask_or_def)

lemma nth_mask_or [simp]:
  "i < length ms \<Longrightarrow> i < length ns \<Longrightarrow> mask_or ms ns ! i = (ms ! i \<or> ns ! i)"
  by (simp add: mask_or_def)

lemma length_eq_c [simp]: "length (eq_c xs c) = length xs"
  by (simp add: eq_c_def)

lemma nth_eq_c [simp]: "i < length xs \<Longrightarrow> eq_c xs c ! i = (xs ! i = Fin c)"
  by (simp add: eq_c_def)

lemma length_gt_c [simp]: "length (gt_c xs c) = length xs"
  by (simp add: gt_c_def)

lemma nth_gt_c [simp]: "i < length xs \<Longrightarrow> gt_c xs c ! i = fl_gt (xs ! i) (Fin c)"
  by (simp add: gt_c_def)

lemma length_lt_c [simp]: "length (lt_c xs c) = length xs"
  by (simp add: lt_c_def)

lemma nth_lt_c [simp]: "i < length xs \<Longrightarrow> lt_c xs c ! i = fl_lt (xs ! i) (Fin c)"
  by (simp add: lt_c_def)

lemma lt_length_gt_cols [simp]:
  "i < length (gt_cols xs ys) \<longleftrightarrow> i < length xs \<and> i < length ys"
  by (simp add: gt_cols_def)

lemma nth_gt_cols [simp]:
  "i < length xs \<Longrightarrow> i < length ys \<Longrightarrow> gt_cols xs ys ! i = fl_gt (xs ! i) (ys ! i)"
  by (simp add: gt_cols_def)

lemma lt_length_lt_cols [simp]:
  "i < length (lt_cols xs ys) \<longleftrightarrow> i < length xs \<and> i < length ys"
  by (simp add: lt_cols_def)

lemma nth_lt_cols [simp]:
  "i < length xs \<Longrightarrow> i < length ys \<Longrightarrow> lt_cols xs ys ! i = fl_lt (xs ! i) (ys ! i)"
  by (simp add: lt_cols_def)

lemma length_to_float [simp]: "length (to_float xs) = length xs"
  by (simp add: to_float_def)

lemma nth_to_float [simp]: "i < length xs \<Longrightarrow> to_float xs ! i = Fin (xs ! i)"
  by (simp add: to_float_def)

lemma fl_sub_NaN [simp]: "fl_sub NaN x = NaN" "fl_sub x NaN = NaN"
  by (cases x; simp add: fl_sub_def)+

lemma fl_div_NaN [simp]: "fl_div NaN x = NaN" "fl_div x NaN = NaN"
  by (cases x; simp)+



lemma lt_length_col_sub [simp]:
  "i < length (col_sub fa xs ys) \<longleftrightarrow> i < length xs \<and> i < length ys"
  by (simp add: col_sub_def)

lemma nth_col_sub [simp]:
  "i < length xs \<Longrightarrow> i < length ys \<Longrightarrow>
   col_sub fa xs ys ! i = f_sub fa (xs ! i) (ys ! i)"
  by (simp add: col_sub_def)

lemma lt_length_col_div [simp]:
  "i < length (col_div fa xs ys) \<longleftrightarrow> i < length xs \<and> i < length ys"
  by (simp add: col_div_def)

lemma nth_col_div [simp]:
  "i < length xs \<Longrightarrow> i < length ys \<Longrightarrow>
   col_div fa xs ys ! i = f_div fa (xs ! i) (ys ! i)"
  by (simp add: col_div_def)

lemma length_col_sub_scalar [simp]: "length (col_sub_scalar fa xs c) = length xs"
  by (simp add: col_sub_scalar_def)

lemma nth_col_sub_scalar [simp]:
  "i < length xs \<Longrightarrow> col_sub_scalar fa xs c ! i = f_sub fa (xs ! i) (Fin c)"
  by (simp add: col_sub_scalar_def)

lemma length_shift [simp]: "length (shift k xs) = length xs"
  by (simp add: shift_def)


lemma length_assign [simp]: "length (assign n xs) = n"
  by (simp add: assign_def)


lemma length_rolling_mean [simp]: "length (rolling_mean fa w xs) = length xs"
  by (simp add: rolling_mean_def)


lemma length_pct_change [simp]: "length (pct_change fa k xs) = length xs"
  by (simp add: pct_change_def)


lemma length_np_where [simp]: "length (np_where cond a b) = length cond"
  by (simp add: np_where_def)

lemma nth_np_where [simp]:
  "i < length cond \<Longrightarrow> np_where cond a b ! i = (if cond ! i then Fin a else Fin b)"
  by (simp add: np_where_def)

lemma lt_length_le_cols [simp]:
  "i < length (le_cols xs ys) \<longleftrightarrow> i < length xs \<and> i < length ys"
  by (simp add: le_cols_def)

lemma nth_le_cols [simp]:
  "i < length xs \<Longrightarrow> i < length ys \<Longrightarrow> le_cols xs ys ! i = fl_le (xs ! i) (ys ! i)"
  by (simp add: le_cols_def)

lemma lt_length_ge_cols [simp]:
  "i < length (ge_cols xs ys) \<longleftrightarrow> i < length xs \<and> i < length ys"
  by (simp add: ge_cols_def)

lemma nth_ge_cols [simp]:
  "i < length xs \<Longrightarrow> i < length ys \<Longrightarrow> ge_cols xs ys ! i = fl_ge (xs ! i) (ys ! i)"
  by (simp add: ge_cols_def)

lemma length_col_sub_same:
  "length xs = n \<Longrightarrow> length ys = n \<Longrightarrow> length (col_sub fa xs ys) = n"
  by (simp add: col_sub_def)

lemma length_col_div_same:
  "length xs = n \<Longrightarrow> length ys = n \<Longrightarrow> length (col_div fa xs ys) = n"
  by (simp add: col_div_def)

lemma length_cross_same:
  "length xs = n \<Longrightarrow> length ys = n \<Longrightarrow>
   length (mask_and (gt_cols xs ys) (le_cols (shift 1 xs) (shift 1 ys))) = n
   \<and> length (mask_and (lt_cols xs ys) (ge_cols (shift 1 xs) (shift 1 ys))) = n"
  by (simp add: mask_and_def gt_cols_def lt_cols_def le_cols_def ge_cols_def)

lemma fl_lt_NaN [simp]: "\<not> fl_lt NaN x" "\<not> fl_lt x NaN"
  by (cases x; simp)+

lemma fl_cmp_NaN [simp]:
  "\<not> fl_gt NaN x" "\<not> fl_gt x NaN" "\<not> fl_le NaN x" "\<not> fl_le x NaN"
  "\<not> fl_ge NaN x" "\<not> fl_ge x NaN"
  by (cases x; simp add: fl_gt_def fl_le_def fl_ge_def)+

lemma flag_at_loc_set_fresh:
  "loc_set n cond None = Inr xs \<Longrightarrow> flag_at (Some xs) i = (i < length cond \<and> cond ! i)"
  by (auto simp: loc_set_def flag_at_def split: if_splits)

lemmas frame_eval = loc_set_def len_def neutral_frame_def default_strategy_def eq_c_def
  gt_c_def lt_c_def gt_cols_def lt_cols_def mask_and_def mask_or_def to_float_def fl_gt_def

section \<open>Properties of the indicator engine\<close>

text \<open>The columns of the frame that is built from the TA-Lib results.\<close>

lemma indicator_frame_ohlcv:
  "date (indicator_frame fa df outs) = date df"
  "open_col (indicator_frame fa df outs) = open_col df"
  "high (indicator_frame fa df outs) = high df"
  "low (indicator_frame fa df outs) = low df"
  "close (indicator_frame fa df outs) = close df"
  "volume (indicator_frame fa df outs) = volume df"
  by (simp_all add: indicator_frame_def Let_def)

lemma indicator_frame_signals:
  "enter_long (indicator_frame fa df outs) = None"
  "enter_short (indicator_frame fa df outs) = None"
  "exit_long (indicator_frame fa df outs) = None"
  "exit_short (indicator_frame fa df outs) = None"
  by (simp_all add: indicator_frame_def Let_def)

lemma indicator_frame_talib:
  "macd (indicator_frame fa df outs) = assign (len df) (o_macd outs)"
  "macdsignal (indicator_frame fa df outs) = assign (len df) (o_macdsignal outs)"
  "macdhist (indicator_frame fa df outs) = assign (len df) (o_macdhist outs)"
  "rsi (indicator_frame fa df outs) = assign (len df) (o_rsi outs)"
  "bb_lowerband (indicator_frame fa df outs) = assign (len df) (o_lowerband outs)"
  "bb_middleband (indicator_frame fa df outs) = assign (len df) (o_middleband outs)"
  "bb_upperband (indicator_frame fa df outs) = assign (len df) (o_upperband outs)"
  "ema_20 (indicator_frame fa df outs) = assign (len df) (o_ema_20 outs)"
  "ema_50 (indicator_frame fa df outs) = assign (len df) (o_ema_50 outs)"
  "adx (indicator_frame fa df outs) = assign (len df) (o_adx outs)"
  "stoch_k (indicator_frame fa df outs) = assign (len df) (o_slowk outs)"
  "stoch_d (indicator_frame fa df outs) = assign (len df) (o_slowd outs)"
  "williams_r (indicator_frame fa df outs) = assign (len df) (o_willr outs)"
  "cci (indicator_frame fa df outs) = assign (len df) (o_cci outs)"
  by (simp_all add: indicator_frame_def Let_def)

lemma indicator_frame_derived:
  fixes fa df outs
  defines "out \<equiv> indicator_frame fa df outs"
  shows "bb_percent out =
           col_div fa (col_sub fa (to_float (close df)) (bb_lowerband out))
             (col_sub fa (bb_upperband out) (bb_lowerband out))"
    and "bb_width out =
           col_div fa (col_sub fa (bb_upperband out) (bb_lowerband out)) (bb_middleband out)"
    and "volume_mean out = rolling_mean fa 20 (volume df)"
    and "volume_ratio out = col_div fa (to_float (volume df)) (volume_mean out)"
    and "price_change out = pct_change fa 5 (close df)"
    and "price_momentum out =
           col_sub_scalar fa
             (col_div fa (to_float (close df)) (shift 5 (to_float (close df)))) 1"
    and "macd_cross out =
           np_where (mask_and (gt_cols (macd out) (macdsignal out))
                       (le_cols (shift 1 (macd out)) (shift 1 (macdsignal out)))) 1 0"
    and "macd_cross_down out =
           np_where (mask_and (lt_cols (macd out) (macdsignal out))
                       (ge_cols (shift 1 (macd out)) (shift 1 (macdsignal out)))) 1 0"
  unfolding out_def
  by (simp_all add: indicator_frame_def Let_def)

lemma len_indicator_frame [simp]: "len (indicator_frame fa df outs) = len df"
  by (simp add: len_def indicator_frame_ohlcv)

text \<open>
  By its construction the frame keeps the length of the candle frame, whatever that
  length is.
\<close>

lemma indicator_frame_length:
  assumes "wf_ohlcv df"
  shows "wf_frame (indicator_frame fa df outs)"
proof -
  let ?out = "indicator_frame fa df outs"
  have c: "length (close df) = len df" and v: "length (volume df) = len df"
    using assms by (simp_all add: wf_ohlcv_def)
  have o: "wf_ohlcv ?out"
    using assms by (simp add: wf_ohlcv_def indicator_frame_ohlcv)
  note tl = indicator_frame_talib [of fa df outs]
  note dv = indicator_frame_derived [of fa df outs]
  have t: "length (macd ?out) = len df" "length (macdsignal ?out) = len df"
    "length (bb_lowerband ?out) = len df" "length (bb_middleband ?out) = len df"
    "length (bb_upperband ?out) = len df"
    by (simp_all add: tl)
  have d1: "length (bb_percent ?out) = len df"
    unfolding dv(1) using c t by (intro length_col_div_same length_col_sub_same) simp_all
  have d2: "length (bb_width ?out) = len df"
    unfolding dv(2) using t by (intro length_col_div_same length_col_sub_same) simp_all
  have d3: "length (volume_mean ?out) = len df"
    unfolding dv(3) using v by simp
  have d4: "length (volume_ratio ?out) = len df"
    unfolding dv(4) using v d3 by (intro length_col_div_same) simp_all
  have d5: "length (price_change ?out) = len df"
    unfolding dv(5) using c by simp
  have d6: "length (price_momentum ?out) = len df"
    unfolding dv(6) using c by (simp add: length_col_div_same)
  have d7: "length (macd_cross ?out) = len df"
    and d8: "length (macd_cross_down ?out) = len df"
    unfolding dv(7) dv(8) using length_cross_same [OF t(1) t(2)] by simp_all
  show ?thesis
    using o d1 d2 d3 d4 d5 d6 d7 d8
    by (simp add: wf_frame_def indicator_columns_def signal_columns_def column_ok_def
        indicator_frame_signals tl)
qed


text \<open>
  Claim C8 says that for a candle series of any length the indicator engine returns a
  frame of that length rather than raising an error. On the five candles of the
  repository's test for short series the method raises \<open>TypeError\<close> and returns no frame.
\<close>

theorem populate_indicators_raises:
  "populate_indicators warmup_talib example_floats default_strategy five_candles
     = Inl TypeError"
  by (simp add: populate_indicators_def ta_MACD_def ta_RSI_def ta_BBANDS_def and_then_def
      check_int_option_def check_real_option_def split: prod.splits)





section \<open>Properties of signal evaluation\<close>

lemma long_momentum: "i < length (long_entry_mask self df) \<Longrightarrow> long_entry_mask self df ! i
   \<Longrightarrow> fl_gt (price_momentum df ! i) (Fin 0.01)"
  by (simp add: long_entry_mask_def)

lemma short_momentum: "i < length (short_entry_mask self df) \<Longrightarrow> short_entry_mask self df ! i
   \<Longrightarrow> fl_lt (price_momentum df ! i) (Fin (- 0.01))"
  by (simp add: short_entry_mask_def)

lemma momentum_exclusive: "fl_gt x (Fin 0.01) \<Longrightarrow> fl_lt x (Fin (- 0.01)) \<Longrightarrow> False"
  by (cases x) (auto simp: fl_gt_def)

lemma entry_long_entry:
  "populate_entry_trend default_strategy long_entry_frame
     = Inr (long_entry_frame\<lparr>enter_long := Some [Fin 1], enter_short := Some [NaN]\<rparr>)"
  by (simp add: populate_entry_trend_def long_entry_mask_def short_entry_mask_def
      long_entry_frame_def frame_eval)

text \<open>
  Claim C2. For every indicator frame (a frame that carries no entry columns yet) and
  every position, the enter-long flag and the enter-short flag that signal evaluation
  produces are not both set: the first needs a price momentum above 0.01, the second
  one below -0.01.
\<close>

theorem entry_flags_exclusive:
  assumes "populate_entry_trend self df = Inr df'"
    and "enter_long df = None" and "enter_short df = None"
  shows "\<not> (flag_at (enter_long df') i \<and> flag_at (enter_short df') i)"
proof -
  obtain longs shorts where l: "loc_set (len df) (long_entry_mask self df) None = Inr longs"
    and s: "loc_set (len df) (short_entry_mask self df) None = Inr shorts"
    and d: "df' = df\<lparr>enter_long := Some longs, enter_short := Some shorts\<rparr>"
    using assms by (auto simp: populate_entry_trend_def split: sum.splits)
  have el: "enter_long df' = Some longs" and es: "enter_short df' = Some shorts"
    unfolding d by simp_all
  show ?thesis
  proof
    assume both: "flag_at (enter_long df') i \<and> flag_at (enter_short df') i"
    have "i < length (long_entry_mask self df) \<and> long_entry_mask self df ! i"
      using both flag_at_loc_set_fresh [OF l, of i] unfolding el by simp
    moreover have "i < length (short_entry_mask self df) \<and> short_entry_mask self df ! i"
      using both flag_at_loc_set_fresh [OF s, of i] unfolding es by simp
    ultimately show False
      using long_momentum [of i self df] short_momentum [of i self df]
        momentum_exclusive [of "price_momentum df ! i"]
      by blast
  qed
qed

theorem entry_flags_exclusive_witness:
  "populate_entry_trend default_strategy long_entry_frame
     = Inr (long_entry_frame\<lparr>enter_long := Some [Fin 1], enter_short := Some [NaN]\<rparr>)
   \<and> enter_long long_entry_frame = None \<and> enter_short long_entry_frame = None
   \<and> flag_at (Some [Fin 1]) 0 \<and> \<not> flag_at (Some [NaN]) 0"
proof -
  have n: "enter_long long_entry_frame = None" "enter_short long_entry_frame = None"
    by (simp_all add: long_entry_frame_def neutral_frame_def)
  have f: "flag_at (Some [Fin 1]) 0"
    by (simp add: flag_at_def)
  show ?thesis
    using entry_flags_exclusive [OF entry_long_entry n, of 0] entry_long_entry n f by simp
qed

lemma wf_frame_lengths:
  assumes "wf_frame df"
  shows "length (close df) = len df" "length (macd_cross df) = len df"
    "length (macd_cross_down df) = len df" "length (volume_ratio df) = len df"
    "length (price_momentum df) = len df" "length (rsi df) = len df"
    "length (ema_20 df) = len df" "length (adx df) = len df" "length (stoch_k df) = len df"
    "length (stoch_d df) = len df" "length (williams_r df) = len df"
    "length (cci df) = len df" "length (bb_percent df) = len df"
  using assms by (simp_all add: wf_frame_def wf_ohlcv_def indicator_columns_def)

lemma short_entry_mask_nth:
  assumes "wf_frame df" and "i < len df"
  shows "i < length (short_entry_mask self df)"
    and "short_entry_mask self df ! i = spec_short_entry (\<lambda>w. fl_lt w (Fin (- 80))) self df i"
  using assms(2) wf_frame_lengths [OF assms(1)]
  by (simp_all add: short_entry_mask_def spec_short_entry_def fl_gt_def)

lemma entry_short_setup:
  "populate_entry_trend default_strategy short_setup_frame
     = Inr (short_setup_frame\<lparr>enter_long := Some [NaN], enter_short := Some [NaN]\<rparr>)"
  by (simp add: populate_entry_trend_def long_entry_mask_def short_entry_mask_def
      short_setup_frame_def frame_eval)

lemma wf_short_entry_frame: "wf_frame short_entry_frame"
  by (simp add: wf_frame_def wf_ohlcv_def len_def indicator_columns_def signal_columns_def
      column_ok_def short_entry_frame_def short_setup_frame_def neutral_frame_def)

lemma entry_short_entry:
  "populate_entry_trend default_strategy short_entry_frame
     = Inr (short_entry_frame\<lparr>enter_long := Some [NaN], enter_short := Some [Fin 1]\<rparr>)"
  by (simp add: populate_entry_trend_def long_entry_mask_def short_entry_mask_def
      short_entry_frame_def short_setup_frame_def frame_eval)

text \<open>
  Every short entry that the code sets has Williams %R below -80, the oversold side of
  its scale.
\<close>

lemma short_entry_needs_oversold:
  assumes "wf_frame df" and "i < len df" and "enter_short df = None"
    and "populate_entry_trend self df = Inr df'" and "flag_at (enter_short df') i"
  shows "fl_lt (williams_r df ! i) (Fin (- 80))"
proof -
  obtain longs shorts where
    s: "loc_set (len df) (short_entry_mask self df) None = Inr shorts"
    and d: "df' = df\<lparr>enter_long := Some longs, enter_short := Some shorts\<rparr>"
    using assms(3,4) by (auto simp: populate_entry_trend_def split: sum.splits)
  have es: "enter_short df' = Some shorts"
    unfolding d by simp
  have "short_entry_mask self df ! i"
    using assms(5) unfolding es flag_at_loc_set_fresh [OF s] by simp
  then show ?thesis
    using short_entry_mask_nth [OF assms(1,2), of self]
    by (simp add: spec_short_entry_def)
qed

text \<open>
  Claim C6 says that the short entry is the mirror of the long entry, with the long
  threshold -20 of Williams %R inverted. At a row that meets every other short condition
  and has Williams %R at -50, which is not oversold, the short entry of the claim holds
  in both readings of the inversion (the negated value, below 20; the complementary
  inequality, at most -20), and the code sets no short entry. With Williams %R at -90,
  which is oversold, the code does set it.
\<close>

theorem short_entry_missed_at_williams_mid:
  "populate_entry_trend default_strategy short_setup_frame
     = Inr (short_setup_frame\<lparr>enter_long := Some [NaN], enter_short := Some [NaN]\<rparr>)
   \<and> \<not> flag_at (enter_short
          (short_setup_frame\<lparr>enter_long := Some [NaN], enter_short := Some [NaN]\<rparr>)) 0
   \<and> spec_short_entry (\<lambda>w. fl_lt w (Fin 20)) default_strategy short_setup_frame 0
   \<and> spec_short_entry (\<lambda>w. fl_le w (Fin (- 20))) default_strategy short_setup_frame 0
   \<and> populate_entry_trend default_strategy short_entry_frame
     = Inr (short_entry_frame\<lparr>enter_long := Some [NaN], enter_short := Some [Fin 1]\<rparr>)"
  by (simp add: entry_short_setup entry_short_entry flag_at_def)
     (simp add: spec_short_entry_def short_setup_frame_def neutral_frame_def
        default_strategy_def fl_gt_def)

text \<open>
  Claim C1 says that the exit-long and the exit-short flag are never both set. The
  code sets exit-long when Williams %R is below -20 and exit-short when it is above
  -80, so both are set at every position whose Williams %R lies between the two.
\<close>

theorem exit_flags_conflict:
  "populate_exit_trend default_strategy neutral_frame
     = Inr (neutral_frame\<lparr>exit_long := Some [Fin 1], exit_short := Some [Fin 1]\<rparr>)
   \<and> flag_at (exit_long
         (neutral_frame\<lparr>exit_long := Some [Fin 1], exit_short := Some [Fin 1]\<rparr>)) 0
   \<and> flag_at (exit_short
         (neutral_frame\<lparr>exit_long := Some [Fin 1], exit_short := Some [Fin 1]\<rparr>)) 0"
  by (simp add: populate_exit_trend_def long_exit_mask_def short_exit_mask_def frame_eval
      flag_at_def)

lemma wf_frame_exit_lengths:
  assumes "wf_frame df"
  shows "length (macd_cross df) = len df"
    "length (macd_cross_down df) = len df" 
    "length (price_momentum df) = len df" "length (rsi df) = len df"
    "length (stoch_k df) = len df"
    "length (stoch_d df) = len df" "length (williams_r df) = len df"
    "length (cci df) = len df" "length (bb_percent df) = len df"
  using assms by (simp_all add: wf_frame_def wf_ohlcv_def indicator_columns_def)

lemma williams_band_sets_both_exits:
  assumes "wf_frame df" and "i < len df" and "exit_long df = None" and "exit_short df = None"
    and "populate_exit_trend self df = Inr df'"
    and "fl_gt (williams_r df ! i) (Fin (- 80))" and "fl_lt (williams_r df ! i) (Fin (- 20))"
  shows "flag_at (exit_long df') i \<and> flag_at (exit_short df') i"
proof -
  obtain longs shorts where l: "loc_set (len df) (long_exit_mask self df) None = Inr longs"
    and s: "loc_set (len df) (short_exit_mask self df) None = Inr shorts"
    and d: "df' = df\<lparr>exit_long := Some longs, exit_short := Some shorts\<rparr>"
    using assms(3,4,5) by (auto simp: populate_exit_trend_def split: sum.splits)
  have el: "exit_long df' = Some longs" and es: "exit_short df' = Some shorts"
    unfolding d by simp_all
  have "i < length (long_exit_mask self df) \<and> long_exit_mask self df ! i"
    using assms(2,7) wf_frame_exit_lengths [OF assms(1)] by (simp add: long_exit_mask_def)
  moreover have "i < length (short_exit_mask self df) \<and> short_exit_mask self df ! i"
    using assms(2,6) wf_frame_exit_lengths [OF assms(1)] by (simp add: short_exit_mask_def)
  ultimately show ?thesis
    unfolding el es flag_at_loc_set_fresh [OF l] flag_at_loc_set_fresh [OF s] by simp
qed

lemma entry_neutral:
  "populate_entry_trend default_strategy neutral_frame
     = Inr (neutral_frame\<lparr>enter_long := Some [NaN], enter_short := Some [NaN]\<rparr>)"
  by (simp add: populate_entry_trend_def long_entry_mask_def short_entry_mask_def frame_eval)

lemma exit_neutral:
  "populate_exit_trend default_strategy neutral_frame
     = Inr (neutral_frame\<lparr>exit_long := Some [Fin 1], exit_short := Some [Fin 1]\<rparr>)"
  by (simp add: populate_exit_trend_def long_exit_mask_def short_exit_mask_def frame_eval)

text \<open>The call on the heap does to the object what the method does to its frame.\<close>

lemma len_set_signal [simp]: "len (set_signal col v df) = len df"
  by (cases col) (simp_all add: len_def)

lemma populate_entry_trend_call_eq:
  "populate_entry_trend_call self r h =
     (case populate_entry_trend self (h r) of
        Inl e \<Rightarrow> Inl e
      | Inr df' \<Rightarrow> Inr (r, h(r := df')))"
  by (simp add: populate_entry_trend_call_def populate_entry_trend_def loc_assign_def
      short_entry_mask_def len_def split: sum.splits)

lemma populate_exit_trend_call_eq:
  "populate_exit_trend_call self r h =
     (case populate_exit_trend self (h r) of
        Inl e \<Rightarrow> Inl e
      | Inr df' \<Rightarrow> Inr (r, h(r := df')))"
  by (simp add: populate_exit_trend_call_def populate_exit_trend_def loc_assign_def
      short_exit_mask_def len_def split: sum.splits)

lemma entry_columns_written:
  assumes "populate_entry_trend_call self r h = Inr (r', h')"
  shows "r' = r" and "\<forall>q. q \<noteq> r \<longrightarrow> h' q = h q"
    and "\<exists>longs shorts.
          loc_set (len (h r)) (long_entry_mask self (h r)) (enter_long (h r)) = Inr longs
        \<and> loc_set (len (h r)) (short_entry_mask self (h r)) (enter_short (h r)) = Inr shorts
        \<and> h' r = (h r)\<lparr>enter_long := Some longs, enter_short := Some shorts\<rparr>"
  using assms unfolding populate_entry_trend_call_eq populate_entry_trend_def
  by (auto split: sum.splits)

lemma exit_columns_written:
  assumes "populate_exit_trend_call self r h = Inr (r', h')"
  shows "r' = r" and "\<forall>q. q \<noteq> r \<longrightarrow> h' q = h q"
    and "\<exists>longs shorts.
          loc_set (len (h r)) (long_exit_mask self (h r)) (exit_long (h r)) = Inr longs
        \<and> loc_set (len (h r)) (short_exit_mask self (h r)) (exit_short (h r)) = Inr shorts
        \<and> h' r = (h r)\<lparr>exit_long := Some longs, exit_short := Some shorts\<rparr>"
  using assms unfolding populate_exit_trend_call_eq populate_exit_trend_def
  by (auto split: sum.splits)

lemma entry_update_changes:
  "enter_long df = None \<or> enter_short df = None \<Longrightarrow>
   df\<lparr>enter_long := Some longs, enter_short := Some shorts\<rparr> \<noteq> df"
proof
  assume a: "enter_long df = None \<or> enter_short df = None"
    and e: "df\<lparr>enter_long := Some longs, enter_short := Some shorts\<rparr> = df"
  have "enter_long (df\<lparr>enter_long := Some longs, enter_short := Some shorts\<rparr>) = Some longs"
    and "enter_short (df\<lparr>enter_long := Some longs, enter_short := Some shorts\<rparr>)
          = Some shorts"
    by simp_all
  then have "enter_long df = Some longs" and "enter_short df = Some shorts"
    unfolding e by simp_all
  then show False
    using a by auto
qed

lemma exit_update_changes:
  "exit_long df = None \<or> exit_short df = None \<Longrightarrow>
   df\<lparr>exit_long := Some longs, exit_short := Some shorts\<rparr> \<noteq> df"
proof
  assume a: "exit_long df = None \<or> exit_short df = None"
    and e: "df\<lparr>exit_long := Some longs, exit_short := Some shorts\<rparr> = df"
  have "exit_long (df\<lparr>exit_long := Some longs, exit_short := Some shorts\<rparr>) = Some longs"
    and "exit_short (df\<lparr>exit_long := Some longs, exit_short := Some shorts\<rparr>)
          = Some shorts"
    by simp_all
  then have "exit_long df = Some longs" and "exit_short df = Some shorts"
    unfolding e by simp_all
  then show False
    using a by auto
qed

text \<open>
  Claim C9, as amended. Signal evaluation writes its two columns into the frame object
  it was given and returns the reference to that same object; no copy is made. After
  the call that object holds the two signal columns, with the cells that the
  assignment through \<open>loc\<close> gives them, so an object that lacked one of them has
  changed. Every other column of that object (the candle columns, the indicator columns
  and the other pair of signal columns) has the same values as before, and no other
  object changes.
\<close>

theorem signal_evaluation_in_place:
  "(populate_entry_trend_call self r h = Inr (r', h') \<longrightarrow>
      r' = r \<and> (\<forall>q. q \<noteq> r \<longrightarrow> h' q = h q)
      \<and> (\<exists>longs shorts.
            loc_set (len (h r)) (long_entry_mask self (h r)) (enter_long (h r)) = Inr longs
          \<and> loc_set (len (h r)) (short_entry_mask self (h r)) (enter_short (h r))
              = Inr shorts
          \<and> h' r = (h r)\<lparr>enter_long := Some longs, enter_short := Some shorts\<rparr>)
      \<and> (enter_long (h r) = None \<or> enter_short (h r) = None \<longrightarrow> h' r \<noteq> h r))
   \<and> (populate_exit_trend_call self r h = Inr (r'', h'') \<longrightarrow>
      r'' = r \<and> (\<forall>q. q \<noteq> r \<longrightarrow> h'' q = h q)
      \<and> (\<exists>longs shorts.
            loc_set (len (h r)) (long_exit_mask self (h r)) (exit_long (h r)) = Inr longs
          \<and> loc_set (len (h r)) (short_exit_mask self (h r)) (exit_short (h r))
              = Inr shorts
          \<and> h'' r = (h r)\<lparr>exit_long := Some longs, exit_short := Some shorts\<rparr>)
      \<and> (exit_long (h r) = None \<or> exit_short (h r) = None \<longrightarrow> h'' r \<noteq> h r))"
proof (intro conjI impI)
  assume a: "populate_entry_trend_call self r h = Inr (r', h')"
  show "r' = r" and "\<forall>q. q \<noteq> r \<longrightarrow> h' q = h q"
    using entry_columns_written(1,2) [OF a] by simp_all
  show w: "\<exists>longs shorts.
            loc_set (len (h r)) (long_entry_mask self (h r)) (enter_long (h r)) = Inr longs
          \<and> loc_set (len (h r)) (short_entry_mask self (h r)) (enter_short (h r))
              = Inr shorts
          \<and> h' r = (h r)\<lparr>enter_long := Some longs, enter_short := Some shorts\<rparr>"
    using entry_columns_written(3) [OF a] .
  show "h' r \<noteq> h r" if "enter_long (h r) = None \<or> enter_short (h r) = None"
  proof -
    obtain longs shorts
      where "h' r = (h r)\<lparr>enter_long := Some longs, enter_short := Some shorts\<rparr>"
      using w by blast
    then show ?thesis
      using entry_update_changes [OF that, where longs = longs and shorts = shorts] by simp
  qed
next
  assume a: "populate_exit_trend_call self r h = Inr (r'', h'')"
  show "r'' = r" and "\<forall>q. q \<noteq> r \<longrightarrow> h'' q = h q"
    using exit_columns_written(1,2) [OF a] by simp_all
  show w: "\<exists>longs shorts.
            loc_set (len (h r)) (long_exit_mask self (h r)) (exit_long (h r)) = Inr longs
          \<and> loc_set (len (h r)) (short_exit_mask self (h r)) (exit_short (h r))
              = Inr shorts
          \<and> h'' r = (h r)\<lparr>exit_long := Some longs, exit_short := Some shorts\<rparr>"
    using exit_columns_written(3) [OF a] .
  show "h'' r \<noteq> h r" if "exit_long (h r) = None \<or> exit_short (h r) = None"
  proof -
    obtain longs shorts
      where "h'' r = (h r)\<lparr>exit_long := Some longs, exit_short := Some shorts\<rparr>"
      using w by blast
    then show ?thesis
      using exit_update_changes [OF that, where longs = longs and shorts = shorts] by simp
  qed
qed

theorem signal_evaluation_in_place_witness:
  "populate_entry_trend_call default_strategy 0 (\<lambda>r. neutral_frame)
     = Inr (0, (\<lambda>r. neutral_frame)
                (0 := neutral_frame\<lparr>enter_long := Some [NaN], enter_short := Some [NaN]\<rparr>))
   \<and> populate_exit_trend_call default_strategy 0 (\<lambda>r. neutral_frame)
     = Inr (0, (\<lambda>r. neutral_frame)
                (0 := neutral_frame\<lparr>exit_long := Some [Fin 1], exit_short := Some [Fin 1]\<rparr>))
   \<and> enter_long neutral_frame = None \<and> exit_long neutral_frame = None"
proof -
  let ?h = "\<lambda>r::nat. neutral_frame"
  let ?h1 = "?h(0 := neutral_frame\<lparr>enter_long := Some [NaN], enter_short := Some [NaN]\<rparr>)"
  let ?h2 = "?h(0 := neutral_frame\<lparr>exit_long := Some [Fin 1], exit_short := Some [Fin 1]\<rparr>)"
  have e: "populate_entry_trend_call default_strategy 0 ?h = Inr (0, ?h1)"
    by (simp add: populate_entry_trend_call_eq entry_neutral)
  have x: "populate_exit_trend_call default_strategy 0 ?h = Inr (0, ?h2)"
    by (simp add: populate_exit_trend_call_eq exit_neutral)
  have n: "enter_long neutral_frame = None" "exit_long neutral_frame = None"
    by (simp_all add: neutral_frame_def)
  show ?thesis
    using signal_evaluation_in_place [of default_strategy 0 ?h 0 ?h1 0 ?h2] e x n
    by blast
qed

text \<open>
  The claim as stated fails: after the call the object the caller passed in has the two
  entry columns, which it did not have before.
\<close>

theorem signal_evaluation_mutates_counterexample:
  "populate_entry_trend_call default_strategy 0 (\<lambda>r. neutral_frame)
     = Inr (0, (\<lambda>r. neutral_frame)
                (0 := neutral_frame\<lparr>enter_long := Some [NaN], enter_short := Some [NaN]\<rparr>))
   \<and> ((\<lambda>r. neutral_frame)
        (0 := neutral_frame\<lparr>enter_long := Some [NaN], enter_short := Some [NaN]\<rparr>)) 0
       \<noteq> neutral_frame"
  by (simp add: populate_entry_trend_call_eq entry_neutral)
     (simp add: neutral_frame_def)

end
